theory Spec2Isabelle
  imports Complex_Main
begin

section \<open>The cursor manager of \<^verbatim>\<open>src/demo/index.js\<close>\<close>

text \<open>
  The class \<^verbatim>\<open>CursorManager\<close> keeps a cursor overlay (a \<^verbatim>\<open>div\<close>) on the element that
  carries a focus class. The manager's fields and the overlay's inline style are the state;
  the document it reads (class lists, offset parents, bounding boxes, scroll offsets, the
  overlay's computed border) is a snapshot handed to every operation, because the page
  changes it between calls. Names are the source's; a trailing underscore of a private
  name is written as a prime (\<^verbatim>\<open>focused_\<close> is \<open>focused'\<close>), since an Isabelle name cannot
  end with an underscore.

  JavaScript numbers that come from the layout engine are finite and are modelled as
  reals; the one place where the code can produce \<^verbatim>\<open>NaN\<close> is \<^verbatim>\<open>parseInt\<close>, whose result
  is a \<open>real option\<close> with \<open>None\<close> for \<^verbatim>\<open>NaN\<close>.
\<close>

subsection \<open>The document as the code reads it\<close>

type_synonym elem = nat

text \<open>The value of \<^verbatim>\<open>elem.getBoundingClientRect()\<close> (viewport coordinates).\<close>

record domRect =
  r_top :: real
  r_left :: real
  r_width :: real
  r_height :: real

text \<open>\<^verbatim>\<open>cursorManager$Rect\<close>: absolute document coordinates.\<close>

record rect =
  rect_top :: real
  rect_left :: real
  rect_width :: real
  rect_height :: real

text \<open>
  A snapshot of the host: \<open>elements\<close> lists the elements of the document in tree order
  (what \<^verbatim>\<open>document.querySelector\<close> scans), \<open>nodeContains a b\<close> is \<^verbatim>\<open>a.contains(b)\<close>, and
  the two border widths are the strings of \<^verbatim>\<open>getComputedStyle(this.cursor_, '')\<close>.
\<close>

record document =
  body :: elem
  elements :: "elem list"
  classList :: "elem \<Rightarrow> string list"
  offsetParent :: "elem \<Rightarrow> elem option"
  getBoundingClientRect :: "elem \<Rightarrow> domRect"
  nodeContains :: "elem \<Rightarrow> elem \<Rightarrow> bool"
  pageXOffset :: real
  pageYOffset :: real
  innerHeight :: real
  borderTopWidth :: string
  borderLeftWidth :: string

text \<open>
  \<^verbatim>\<open>document.querySelector(`.${ cls }`)\<close>: the first element in tree order with the class.
  This is what the selector means when the class name is a CSS identifier, which is what
  the constructor's documentation asks for.
\<close>

definition querySelector :: "document \<Rightarrow> string \<Rightarrow> elem option" where
  "querySelector d cls = find (\<lambda>e. cls \<in> set (classList d e)) (elements d)"

text \<open>
  \<^verbatim>\<open>isInDocumentBody\<close> walks the offset-parent chain. The walk ends on every chain that is
  finite; on a cyclic one it would not return, which is the value \<open>None\<close>.
\<close>

partial_function (option) isInDocumentBody :: "document \<Rightarrow> elem option \<Rightarrow> bool option" where
  "isInDocumentBody d element =
     (case element of
        None \<Rightarrow> Some False
      | Some e \<Rightarrow>
          if e = body d then Some True
          else (case offsetParent d e of
                  None \<Rightarrow> Some False
                | Some p \<Rightarrow> isInDocumentBody d (Some p)))"

definition getAbsoluteElementRect :: "document \<Rightarrow> elem \<Rightarrow> rect" where
  "getAbsoluteElementRect d el =
     (let r = getBoundingClientRect d el
      in \<lparr>rect_top = r_top r + pageYOffset d, rect_left = r_left r + pageXOffset d,
          rect_width = r_width r, rect_height = r_height r\<rparr>)"

subsection \<open>\<^verbatim>\<open>parseInt(s, 10)\<close>\<close>

definition isSpace :: "char \<Rightarrow> bool" where
  "isSpace c = (c \<in> set [CHR '' '', CHR 0x09, CHR 0x0A, CHR 0x0B, CHR 0x0C, CHR 0x0D])"

definition isDigit :: "char \<Rightarrow> bool" where
  "isDigit c = (c \<in> set ''0123456789'')"

definition digitsValue :: "string \<Rightarrow> int" where
  "digitsValue ds = foldl (\<lambda>a c. 10 * a + (of_char c - 48)) 0 ds"

text \<open>
  Leading white space is skipped, one sign is read, then the longest run of decimal
  digits; no digit at all gives \<^verbatim>\<open>NaN\<close>. What follows the digits (\<^verbatim>\<open>px\<close>, a fraction) is
  ignored.
\<close>

definition parseInt :: "string \<Rightarrow> real option" where
  "parseInt str =
     (let s1 = dropWhile isSpace str;
          neg = (case s1 of c # _ \<Rightarrow> c = CHR ''-'' | [] \<Rightarrow> False);
          s2 = (case s1 of c # cs \<Rightarrow> if c = CHR ''-'' \<or> c = CHR ''+'' then cs else s1 | [] \<Rightarrow> s1);
          ds = takeWhile isDigit s2
      in if ds = [] then None
         else Some (real_of_int (if neg then - digitsValue ds else digitsValue ds)))"

text \<open>\<^verbatim>\<open>x - y\<close> where \<open>y\<close> may be \<^verbatim>\<open>NaN\<close>.\<close>

definition minusNumber :: "real \<Rightarrow> real option \<Rightarrow> real option" where
  "minusNumber x y = (case y of None \<Rightarrow> None | Some b \<Rightarrow> Some (x - b))"

subsection \<open>The overlay element and the manager\<close>

text \<open>\<open>Px n\<close> is the string \<^verbatim>\<open>`${ n }px`\<close>.\<close>

datatype cssLength = Px real

text \<open>\<open>Translate3d x y\<close> is the string \<^verbatim>\<open>`translate3d(${ x }px, ${ y }px, 0)`\<close>.\<close>

datatype cssTransform = Translate3d "real option" "real option"

text \<open>
  The overlay: its class list, its parent node and the inline style properties the code
  writes. An unset style property is the empty string, or \<open>None\<close> for the structured ones.
\<close>

record cursorElement =
  c_classList :: "string list"
  c_parentNode :: "elem option"
  display :: string
  transitionDuration :: string
  position :: string
  styleTop :: string
  styleLeft :: string
  styleWidth :: "cssLength option"
  styleHeight :: "cssLength option"
  transform :: "cssTransform option"

record scrollToOptions =
  s_left :: real
  s_top :: real
  behavior :: string

text \<open>The \<^verbatim>\<open>MutationObserver\<close> the manager creates; it is connected until \<^verbatim>\<open>disconnect()\<close>.\<close>

datatype mutationObserver = Observer (connected: bool)

record mutationRecord =
  target :: elem

text \<open>A listener is a type and a handler; handlers are opaque functions, named by numbers.\<close>

type_synonym handler = nat

record eventListener =
  l_type :: string
  l_listener :: handler

record customEvent =
  e_type :: string
  detail_target :: elem

text \<open>
  The manager's fields, followed by the two effects that leave it: the calls of
  \<^verbatim>\<open>window.scroll\<close> and the handler invocations, each in the order they were made.
\<close>

record manager =
  root' :: elem
  cursor' :: cursorElement
  focused' :: "elem option"
  freezed' :: bool
  focusClassName' :: string
  viewHeight' :: real
  observer' :: "mutationObserver option"
  eventListeners' :: "eventListener list"
  scrolls :: "scrollToOptions list"
  invoked :: "(handler \<times> customEvent) list"

datatype error = NotFoundError

definition FOCUS_UPDATED :: string where
  "FOCUS_UPDATED = ''focusUpdated''"

text \<open>\<^verbatim>\<open>document.createElement('div')\<close>: no class, no parent, no inline style.\<close>

definition createElementDiv :: cursorElement where
  "createElementDiv =
     \<lparr>c_classList = [], c_parentNode = None, display = '''', transitionDuration = '''',
      position = '''', styleTop = '''', styleLeft = '''', styleWidth = None,
      styleHeight = None, transform = None\<rparr>"

definition constructor :: "document \<Rightarrow> elem \<Rightarrow> string \<Rightarrow> manager" where
  "constructor d rt cls =
     \<lparr>root' = rt, cursor' = createElementDiv, focused' = None, freezed' = False,
      focusClassName' = cls, viewHeight' = innerHeight d, observer' = None,
      eventListeners' = [], scrolls = [], invoked = []\<rparr>"

subsection \<open>Private methods\<close>

definition hideCursor' :: "manager \<Rightarrow> manager" where
  "hideCursor' s = s\<lparr>cursor' := (cursor' s)\<lparr>display := ''none''\<rparr>\<rparr>"

definition showCursor' :: "manager \<Rightarrow> manager" where
  "showCursor' s = s\<lparr>cursor' := (cursor' s)\<lparr>display := ''''\<rparr>\<rparr>"

definition scrollIntoView' :: "document \<Rightarrow> rect \<Rightarrow> manager \<Rightarrow> manager" where
  "scrollIntoView' d r s =
     (let left = pageXOffset d
      in s\<lparr>scrolls := scrolls s @
            [\<lparr>s_left = left,
              s_top = rect_top r - (innerHeight d * 0.5) + (rect_height r * 0.5),
              behavior = ''smooth''\<rparr>]\<rparr>)"

definition moveCursorTo' :: "document \<Rightarrow> rect \<Rightarrow> manager \<Rightarrow> manager" where
  "moveCursorTo' d r s =
     (let borserTop = parseInt (borderTopWidth d);
          borserLeft = parseInt (borderLeftWidth d)
      in s\<lparr>cursor' := (cursor' s)\<lparr>transform :=
            Some (Translate3d (minusNumber (rect_left r) borserLeft)
                              (minusNumber (rect_top r) borserTop))\<rparr>\<rparr>)"

definition resizeCursorTo' :: "rect \<Rightarrow> manager \<Rightarrow> manager" where
  "resizeCursorTo' r s =
     s\<lparr>cursor' := (cursor' s)\<lparr>styleWidth := Some (Px (rect_width r)),
                               styleHeight := Some (Px (rect_height r))\<rparr>\<rparr>"

definition styleCursor' :: "manager \<Rightarrow> manager" where
  "styleCursor' s =
     hideCursor'
       (s\<lparr>cursor' := (cursor' s)
            \<lparr>c_classList := (if ''__spatial-navigation-cursor__'' \<in> set (c_classList (cursor' s))
                              then c_classList (cursor' s)
                              else c_classList (cursor' s) @ [''__spatial-navigation-cursor__'']),
             position := ''absolute'', styleTop := ''0'', styleLeft := ''0''\<rparr>\<rparr>)"

definition appendToRoot' :: "manager \<Rightarrow> manager" where
  "appendToRoot' s = s\<lparr>cursor' := (cursor' s)\<lparr>c_parentNode := Some (root' s)\<rparr>\<rparr>"

text \<open>
  \<^verbatim>\<open>this.root_.removeChild(this.cursor_)\<close> throws a \<^verbatim>\<open>NotFoundError\<close> when the overlay is
  not a child of the root.
\<close>

definition removeFromRoot' :: "manager \<Rightarrow> error + manager" where
  "removeFromRoot' s =
     (if c_parentNode (cursor' s) = Some (root' s)
      then Inr (s\<lparr>cursor' := (cursor' s)\<lparr>c_parentNode := None\<rparr>\<rparr>)
      else Inl NotFoundError)"

definition disconnectFocus' :: "manager \<Rightarrow> manager" where
  "disconnectFocus' s =
     (case observer' s of
        None \<Rightarrow> s
      | Some ob \<Rightarrow> s\<lparr>observer' := Some (Observer False)\<rparr>)"

definition trigger' :: "string \<Rightarrow> customEvent \<Rightarrow> manager \<Rightarrow> manager" where
  "trigger' type ev s =
     s\<lparr>invoked := invoked s @
        map (\<lambda>l. (l_listener l, ev)) (filter (\<lambda>l. l_type l = type) (eventListeners' s))\<rparr>"

subsection \<open>Public methods\<close>

definition place :: "document \<Rightarrow> manager \<Rightarrow> manager option" where
  "place d s =
     (case isInDocumentBody d (focused' s) of
        None \<Rightarrow> None
      | Some inBody \<Rightarrow>
          (case (if inBody then focused' s else querySelector d (focusClassName' s)) of
             None \<Rightarrow> Some (hideCursor' s)
           | Some focused \<Rightarrow>
               (let origTransitionDuration = transitionDuration (cursor' s);
                    s1 = s\<lparr>cursor' := (cursor' s)\<lparr>transitionDuration := ''0''\<rparr>\<rparr>;
                    r = getAbsoluteElementRect d focused;
                    s2 = scrollIntoView' d r s1;
                    s3 = resizeCursorTo' r s2;
                    s4 = moveCursorTo' d r s3;
                    s5 = (if focusClassName' s4 \<notin> set (classList d focused)
                          then hideCursor' s4 else showCursor' s4)
                in Some (s5\<lparr>cursor' := (cursor' s5)
                              \<lparr>transitionDuration := origTransitionDuration\<rparr>\<rparr>))))"

definition move :: "document \<Rightarrow> manager \<Rightarrow> manager option" where
  "move d s =
     (case isInDocumentBody d (focused' s) of
        None \<Rightarrow> None
      | Some inBody \<Rightarrow>
          (case (if inBody then focused' s else querySelector d (focusClassName' s)) of
             None \<Rightarrow> Some (hideCursor' s)
           | Some focused \<Rightarrow>
               if focusClassName' s \<notin> set (classList d focused) then Some (hideCursor' s)
               else (let s1 = showCursor' s;
                         r = getAbsoluteElementRect d focused;
                         s2 = scrollIntoView' d r s1;
                         s3 = resizeCursorTo' r s2
                     in Some (moveCursorTo' d r s3))))"

definition focus :: "document \<Rightarrow> manager \<Rightarrow> manager option" where
  "focus d s =
     (if focused' s = None \<or> display (cursor' s) = ''none'' then place d s else move d s)"

text \<open>
  The callback given to \<^verbatim>\<open>new MutationObserver\<close> in \<^verbatim>\<open>observeFocus_\<close>. Its loop over the
  records, with the \<^verbatim>\<open>break\<close>, is \<open>firstFocused\<close>.
\<close>

fun firstFocused :: "document \<Rightarrow> string \<Rightarrow> mutationRecord list \<Rightarrow> elem option" where
  "firstFocused d cls [] = None"
| "firstFocused d cls (mutation # rest) =
     (if cls \<in> set (classList d (target mutation)) then Some (target mutation)
      else firstFocused d cls rest)"

definition observerCallback :: "document \<Rightarrow> mutationRecord list \<Rightarrow> manager \<Rightarrow> manager option" where
  "observerCallback d mutationRecords s =
     (case firstFocused d (focusClassName' s) mutationRecords of
        Some tgt \<Rightarrow>
          (let s1 = s\<lparr>focused' := Some tgt\<rparr>
           in case (if \<not> freezed' s1 then focus d s1 else Some s1) of
                None \<Rightarrow> None
              | Some s2 \<Rightarrow>
                  Some (trigger' FOCUS_UPDATED
                          \<lparr>e_type = FOCUS_UPDATED, detail_target = tgt\<rparr> s2))
      | None \<Rightarrow> Some (hideCursor' s))"

definition observeFocus' :: "manager \<Rightarrow> manager" where
  "observeFocus' s = s\<lparr>observer' := Some (Observer True)\<rparr>"

definition start :: "document \<Rightarrow> manager \<Rightarrow> manager option" where
  "start d s = focus d (observeFocus' (appendToRoot' (styleCursor' s)))"

definition resume :: "document \<Rightarrow> manager \<Rightarrow> manager option" where
  "resume d s = focus d (s\<lparr>freezed' := False\<rparr>)"

definition stop :: "manager \<Rightarrow> error + manager" where
  "stop s =
     (case removeFromRoot' s of
        Inl e \<Rightarrow> Inl e
      | Inr s1 \<Rightarrow> Inr (disconnectFocus' s1))"

definition freeze :: "manager \<Rightarrow> manager" where
  "freeze s = s\<lparr>freezed' := True\<rparr>"

definition getCursor :: "manager \<Rightarrow> cursorElement" where
  "getCursor s = cursor' s"

definition getFocusedElement :: "manager \<Rightarrow> elem option" where
  "getFocusedElement s = focused' s"

definition addEventListener :: "string \<Rightarrow> handler \<Rightarrow> manager \<Rightarrow> manager" where
  "addEventListener type listener s =
     s\<lparr>eventListeners' := eventListeners' s @ [\<lparr>l_type = type, l_listener = listener\<rparr>]\<rparr>"

fun spliceFirst :: "('a \<Rightarrow> bool) \<Rightarrow> 'a list \<Rightarrow> 'a list" where
  "spliceFirst P [] = []"
| "spliceFirst P (x # xs) = (if P x then xs else x # spliceFirst P xs)"

definition removeEventListener :: "string \<Rightarrow> handler \<Rightarrow> manager \<Rightarrow> manager" where
  "removeEventListener type listener s =
     s\<lparr>eventListeners' :=
         spliceFirst (\<lambda>l. l_type l = type \<and> l_listener l = listener) (eventListeners' s)\<rparr>"

subsection \<open>The host delivering mutation records\<close>

text \<open>
  The host calls the observer's callback with a batch of records, in a document state of
  its choosing, only while the observer exists and is connected. The observer meant is
  the one the field \<^verbatim>\<open>observer_\<close> holds.
\<close>

definition deliver :: "document \<Rightarrow> mutationRecord list \<Rightarrow> manager \<Rightarrow> manager option" where
  "deliver d mutationRecords s =
     (case observer' s of
        Some (Observer True) \<Rightarrow> observerCallback d mutationRecords s
      | _ \<Rightarrow> Some s)"

fun run :: "manager \<Rightarrow> (document \<times> mutationRecord list) list \<Rightarrow> manager option" where
  "run s [] = Some s"
| "run s ((d, mutationRecords) # rest) =
     (case deliver d mutationRecords s of
        None \<Rightarrow> None
      | Some s1 \<Rightarrow> run s1 rest)"

subsection \<open>Notions the properties are stated with\<close>

text \<open>
  A document is well formed when no offset-parent chain is cyclic or infinite; every
  document of a browser is, since the chain climbs the tree.
\<close>

definition finiteChains :: "document \<Rightarrow> bool" where
  "finiteChains d = wf {(p, e). offsetParent d e = Some p}"

text \<open>The overlay has the size of element \<open>el\<close> and is translated to its top-left corner.\<close>

definition overlayOn :: "document \<Rightarrow> elem \<Rightarrow> cursorElement \<Rightarrow> bool" where
  "overlayOn d el c =
     (let r = getAbsoluteElementRect d el
      in styleWidth c = Some (Px (rect_width r)) \<and>
         styleHeight c = Some (Px (rect_height r)) \<and>
         transform c =
           Some (Translate3d (minusNumber (rect_left r) (parseInt (borderLeftWidth d)))
                             (minusNumber (rect_top r) (parseInt (borderTopWidth d)))))"

text \<open>The scroll request that centres element \<open>el\<close> vertically and keeps the horizontal offset.\<close>

definition centred :: "document \<Rightarrow> elem \<Rightarrow> scrollToOptions" where
  "centred d el =
     (let r = getAbsoluteElementRect d el
      in \<lparr>s_left = pageXOffset d,
          s_top = rect_top r - innerHeight d / 2 + rect_height r / 2,
          behavior = ''smooth''\<rparr>)"

text \<open>
  The specification's fallback, in its own words: a query of the observed subtree (the
  root and its descendants) for an element that carries the class. The code's fallback is
  \<open>querySelector\<close>, on the whole document.
\<close>

definition querySubtree :: "document \<Rightarrow> elem \<Rightarrow> string \<Rightarrow> elem option" where
  "querySubtree d rt cls =
     find (\<lambda>e. nodeContains d rt e \<and> cls \<in> set (classList d e)) (elements d)"

text \<open>
  The translation as the specification states it: the rectangle's corner less the
  overlay's border widths themselves, \<open>cssPixels\<close> being the length that a computed
  width such as \<^verbatim>\<open>1.5px\<close> denotes. The code subtracts what \<^verbatim>\<open>parseInt\<close> reads.
\<close>

definition cssPixels :: "string \<Rightarrow> real option" where
  "cssPixels str =
     (let ip = takeWhile isDigit str;
          r1 = dropWhile isDigit str;
          fp = (case r1 of c # cs \<Rightarrow> if c = CHR ''.'' then takeWhile isDigit cs else [] | [] \<Rightarrow> []);
          r2 = (case r1 of c # cs \<Rightarrow> if c = CHR ''.'' then dropWhile isDigit cs else r1 | [] \<Rightarrow> r1)
      in if ip @ fp \<noteq> [] \<and> r2 = ''px''
         then Some (real_of_int (digitsValue ip) + real_of_int (digitsValue fp) / 10 ^ length fp)
         else None)"

definition statedTranslation :: "document \<Rightarrow> rect \<Rightarrow> cssTransform" where
  "statedTranslation d r =
     Translate3d (minusNumber (rect_left r) (cssPixels (borderLeftWidth d)))
                 (minusNumber (rect_top r) (cssPixels (borderTopWidth d)))"

text \<open>A session: \<^verbatim>\<open>start()\<close> in a first document, then the batches the host delivers.\<close>

definition session ::
  "document \<Rightarrow> manager \<Rightarrow> (document \<times> mutationRecord list) list \<Rightarrow> manager option" where
  "session d0 s evs = (case start d0 s of None \<Rightarrow> None | Some s1 \<Rightarrow> run s1 evs)"

subsection \<open>A page to evaluate on\<close>

text \<open>
  The body is element 0, the observed root 1 with the items 2 and 3 inside it, and 4 an
  item beside the root. The argument lists the elements that carry the class \<^verbatim>\<open>focus\<close>.
\<close>

definition exDoc :: "elem list \<Rightarrow> document" where
  "exDoc holders =
     \<lparr>body = 0, elements = [0, 1, 2, 3, 4],
      classList = (\<lambda>e. if e \<in> set holders then [''item'', ''focus''] else [''item'']),
      offsetParent =
        (\<lambda>e. if e = 1 \<or> e = 4 then Some 0 else if e = 2 \<or> e = 3 then Some 1 else None),
      getBoundingClientRect =
        (\<lambda>e. \<lparr>r_top = 100 * real e, r_left = 50, r_width = 80, r_height = 40\<rparr>),
      nodeContains = (\<lambda>a b. a = b \<or> (a = 0 \<and> b \<le> 4) \<or> (a = 1 \<and> (b = 2 \<or> b = 3))),
      pageXOffset = 7, pageYOffset = 20, innerHeight = 600,
      borderTopWidth = ''2px'', borderLeftWidth = ''3px''\<rparr>"

definition exManager :: manager where
  "exManager = constructor (exDoc []) 1 ''focus''"

text \<open>The same page with the item 2 focused and an overlay border of fractional widths.\<close>

definition exFineBorders :: document where
  "exFineBorders = (exDoc [2])\<lparr>borderTopWidth := ''0.5px'', borderLeftWidth := ''1.5px''\<rparr>"

section \<open>Properties\<close>

subsection \<open>Termination of the attachment walk, and what the methods leave alone\<close>

lemma finiteChainsI:
  assumes "\<And>e p. offsetParent d e = Some p \<Longrightarrow> f p < (f e :: nat)"
  shows "finiteChains d"
  unfolding finiteChains_def
  by (rule wf_subset [OF wf_measure [of f]]) (auto dest: assms)

lemma isInDocumentBody_None [simp]: "isInDocumentBody d None = Some False"
  by (rule trans [OF isInDocumentBody.simps]) simp

lemma isInDocumentBody_Some:
  "isInDocumentBody d (Some e) =
     (if e = body d then Some True
      else (case offsetParent d e of
              None \<Rightarrow> Some False
            | Some p \<Rightarrow> isInDocumentBody d (Some p)))"
  by (rule trans [OF isInDocumentBody.simps]) simp

lemma isInDocumentBody_Some_total:
  assumes "finiteChains d"
  shows "\<exists>b. isInDocumentBody d (Some e) = Some b"
  using assms unfolding finiteChains_def
proof (induction e rule: wf_induct_rule)
  case (less e)
  show ?case
  proof (cases "offsetParent d e")
    case None
    show ?thesis by (auto simp: isInDocumentBody_Some [of d e] None)
  next
    case (Some p)
    then have "(p, e) \<in> {(p, e). offsetParent d e = Some p}" by simp
    from less.IH [OF this] obtain b where "isInDocumentBody d (Some p) = Some b" ..
    with Some show ?thesis by (auto simp: isInDocumentBody_Some [of d e])
  qed
qed

lemma isInDocumentBody_total:
  assumes "finiteChains d"
  shows "\<exists>b. isInDocumentBody d x = Some b"
  using isInDocumentBody_Some_total [OF assms] by (cases x) auto

lemmas private_defs =
  hideCursor'_def showCursor'_def scrollIntoView'_def moveCursorTo'_def resizeCursorTo'_def

lemma place_frame:
  assumes "place d s = Some s1"
  shows "focused' s1 = focused' s \<and> freezed' s1 = freezed' s \<and> observer' s1 = observer' s \<and>
         focusClassName' s1 = focusClassName' s \<and> eventListeners' s1 = eventListeners' s \<and>
         invoked s1 = invoked s \<and> root' s1 = root' s \<and>
         transitionDuration (cursor' s1) = transitionDuration (cursor' s)"
  using assms
  by (auto simp: place_def private_defs Let_def split: option.splits if_splits)

lemma move_frame:
  assumes "move d s = Some s1"
  shows "focused' s1 = focused' s \<and> freezed' s1 = freezed' s \<and> observer' s1 = observer' s \<and>
         focusClassName' s1 = focusClassName' s \<and> eventListeners' s1 = eventListeners' s \<and>
         invoked s1 = invoked s \<and> root' s1 = root' s \<and>
         transitionDuration (cursor' s1) = transitionDuration (cursor' s)"
  using assms
  by (auto simp: move_def private_defs Let_def split: option.splits if_splits)

lemma focus_frame:
  assumes "focus d s = Some s1"
  shows "focused' s1 = focused' s \<and> freezed' s1 = freezed' s \<and> observer' s1 = observer' s \<and>
         focusClassName' s1 = focusClassName' s \<and> eventListeners' s1 = eventListeners' s \<and>
         invoked s1 = invoked s \<and> root' s1 = root' s"
  using assms place_frame [of d s s1] move_frame [of d s s1]
  by (simp add: focus_def split: if_splits)

lemma place_total:
  assumes "finiteChains d"
  shows "\<exists>s1. place d s = Some s1"
proof -
  from isInDocumentBody_total [OF assms] obtain b where "isInDocumentBody d (focused' s) = Some b" ..
  then show ?thesis by (simp add: place_def Let_def split: option.splits)
qed

lemma move_total:
  assumes "finiteChains d"
  shows "\<exists>s1. move d s = Some s1"
proof -
  from isInDocumentBody_total [OF assms] obtain b where "isInDocumentBody d (focused' s) = Some b" ..
  then show ?thesis by (simp add: move_def Let_def split: option.splits)
qed

lemma focus_total:
  assumes "finiteChains d"
  shows "\<exists>s1. focus d s = Some s1"
  using place_total [OF assms] move_total [OF assms] by (simp add: focus_def)

lemma exDoc_finiteChains: "finiteChains (exDoc hs)"
  by (rule finiteChainsI [of _ "\<lambda>e. if e = 0 then 0 else if e = 1 \<or> e = 4 then 1 else 2"])
     (auto simp: exDoc_def split: if_splits)

lemmas eval_defs =
  exDoc_def exManager_def constructor_def createElementDiv_def start_def focus_def place_def
  move_def private_defs styleCursor'_def appendToRoot'_def observeFocus'_def
  querySelector_def getAbsoluteElementRect_def parseInt_def isSpace_def isDigit_def
  digitsValue_def minusNumber_def isInDocumentBody_Some Let_def

subsection \<open>The dispatch of \<^verbatim>\<open>focus()\<close>\<close>

text \<open>
  C3. \<^verbatim>\<open>focus()\<close> calls \<^verbatim>\<open>place()\<close> exactly when there is no tracked element or the overlay
  is hidden (its \<^verbatim>\<open>display\<close> is \<^verbatim>\<open>none\<close>), and \<^verbatim>\<open>move()\<close> in every other state.
\<close>

theorem focus_dispatch:
  "focus d s =
     (if getFocusedElement s = None \<or> display (getCursor s) = ''none'' then place d s
      else move d s)"
  by (simp add: focus_def getFocusedElement_def getCursor_def)

theorem focus_dispatch_witness:
  "focus (exDoc [2]) exManager = place (exDoc [2]) exManager \<and>
   focus (exDoc [2]) (hideCursor' (exManager\<lparr>focused' := Some 2\<rparr>)) =
     place (exDoc [2]) (hideCursor' (exManager\<lparr>focused' := Some 2\<rparr>)) \<and>
   focus (exDoc [2]) (exManager\<lparr>focused' := Some 2\<rparr>) =
     move (exDoc [2]) (exManager\<lparr>focused' := Some 2\<rparr>)"
  using focus_dispatch [of "exDoc [2]" exManager]
        focus_dispatch [of "exDoc [2]" "hideCursor' (exManager\<lparr>focused' := Some 2\<rparr>)"]
        focus_dispatch [of "exDoc [2]" "exManager\<lparr>focused' := Some 2\<rparr>"]
  by (simp add: exManager_def constructor_def createElementDiv_def getFocusedElement_def
        getCursor_def hideCursor'_def)

subsection \<open>\<^verbatim>\<open>place()\<close> and the transition duration\<close>

text \<open>
  C7. On every well-formed document \<^verbatim>\<open>place()\<close> returns, and the overlay's
  \<^verbatim>\<open>transitionDuration\<close> is then what it was before the call, whether the overlay was
  hidden for want of a target, hidden after the placement, or shown.
\<close>

theorem place_restores_transition:
  assumes "finiteChains d"
  shows "\<exists>s1. place d s = Some s1 \<and>
           transitionDuration (cursor' s1) = transitionDuration (cursor' s)"
  using place_total [OF assms, of s] place_frame [of d s] by auto

theorem place_restores_transition_witness:
  "finiteChains (exDoc [2]) \<and>
   (\<exists>s1. place (exDoc [2])
          (exManager\<lparr>cursor' := (cursor' exManager)\<lparr>transitionDuration := ''300ms''\<rparr>\<rparr>) = Some s1 \<and>
      display (cursor' s1) = '''' \<and> transitionDuration (cursor' s1) = ''300ms'')"
  using place_restores_transition [OF exDoc_finiteChains, of "[2]"
          "exManager\<lparr>cursor' := (cursor' exManager)\<lparr>transitionDuration := ''300ms''\<rparr>\<rparr>"]
        exDoc_finiteChains [of "[2]"]
  by (auto simp: eval_defs)

subsection \<open>A batch without a marked record\<close>

text \<open>
  C10. When no record of a batch has a target that carries the focus class, the callback
  hides the overlay and does nothing else: the tracked element, which
  \<^verbatim>\<open>getFocusedElement()\<close> returns, stays what it was, and no handler is invoked.
\<close>

theorem no_marked_record_hides:
  assumes "\<forall>m \<in> set ms. focusClassName' s \<notin> set (classList d (target m))"
  shows "\<exists>s1. observerCallback d ms s = Some s1 \<and> display (cursor' s1) = ''none'' \<and>
           getFocusedElement s1 = getFocusedElement s \<and> invoked s1 = invoked s \<and>
           s1 = hideCursor' s"
proof -
  have "firstFocused d (focusClassName' s) ms = None"
    using assms by (induction ms) auto
  then show ?thesis
    by (simp add: observerCallback_def hideCursor'_def getFocusedElement_def)
qed

theorem no_marked_record_hides_witness:
  "focusClassName' (addEventListener FOCUS_UPDATED 11 (exManager\<lparr>focused' := Some 3\<rparr>))
     \<notin> set (classList (exDoc [2]) (target \<lparr>target = 3\<rparr>)) \<and>
   (\<exists>s1. observerCallback (exDoc [2]) [\<lparr>target = 3\<rparr>]
            (addEventListener FOCUS_UPDATED 11 (exManager\<lparr>focused' := Some 3\<rparr>)) = Some s1 \<and>
      display (cursor' s1) = ''none'' \<and> getFocusedElement s1 = Some 3 \<and> invoked s1 = [])"
  using no_marked_record_hides [of "[\<lparr>target = 3\<rparr>]"
          "addEventListener FOCUS_UPDATED 11 (exManager\<lparr>focused' := Some 3\<rparr>)" "exDoc [2]"]
  by (simp add: eval_defs addEventListener_def getFocusedElement_def)

subsection \<open>The observer's callback and the delivery of batches\<close>

text \<open>
  The loop of the callback finds the first record, in the order of the batch, whose target
  carries the focus class at the time of the callback.
\<close>

lemma firstFocused_None_iff:
  "firstFocused d cls ms = None \<longleftrightarrow> (\<forall>m \<in> set ms. cls \<notin> set (classList d (target m)))"
  by (induction ms) auto

lemma firstFocused_Some:
  assumes "firstFocused d cls ms = Some t"
  shows "cls \<in> set (classList d t) \<and> t \<in> target ` set ms"
  using assms by (induction ms) (auto split: if_splits)

lemma firstFocused_split:
  assumes "ms = pre @ m # post"
    and "\<forall>x \<in> set pre. cls \<notin> set (classList d (target x))"
    and "cls \<in> set (classList d (target m))"
  shows "firstFocused d cls ms = Some (target m)"
  using assms by (induction pre arbitrary: ms) auto

lemma callback_marked:
  assumes "finiteChains d" and "firstFocused d (focusClassName' s) ms = Some t"
  shows "\<exists>s2. (if freezed' s then Some (s\<lparr>focused' := Some t\<rparr>)
               else focus d (s\<lparr>focused' := Some t\<rparr>)) = Some s2 \<and>
              observerCallback d ms s =
                Some (trigger' FOCUS_UPDATED \<lparr>e_type = FOCUS_UPDATED, detail_target = t\<rparr> s2)"
proof (cases "freezed' s")
  case True
  with assms(2) show ?thesis by (simp add: observerCallback_def)
next
  case False
  from focus_total [OF assms(1)] obtain s2 where "focus d (s\<lparr>focused' := Some t\<rparr>) = Some s2" ..
  with False assms(2) show ?thesis by (simp add: observerCallback_def)
qed

lemma callback_tracks:
  assumes "finiteChains d" and "firstFocused d (focusClassName' s) ms = Some t"
  shows "\<exists>s1. observerCallback d ms s = Some s1 \<and> focused' s1 = Some t \<and>
           invoked s1 = invoked s @
             map (\<lambda>l. (l_listener l, \<lparr>e_type = FOCUS_UPDATED, detail_target = t\<rparr>))
               (filter (\<lambda>l. l_type l = FOCUS_UPDATED) (eventListeners' s))"
proof -
  from callback_marked [OF assms] obtain s2 where
    s2: "(if freezed' s then Some (s\<lparr>focused' := Some t\<rparr>)
          else focus d (s\<lparr>focused' := Some t\<rparr>)) = Some s2"
    and cb: "observerCallback d ms s =
      Some (trigger' FOCUS_UPDATED \<lparr>e_type = FOCUS_UPDATED, detail_target = t\<rparr> s2)"
    by blast
  have "focused' s2 = Some t \<and> invoked s2 = invoked s \<and> eventListeners' s2 = eventListeners' s"
  proof (cases "freezed' s")
    case True
    with s2 show ?thesis by auto
  next
    case False
    with s2 focus_frame [of d "s\<lparr>focused' := Some t\<rparr>" s2] show ?thesis by simp
  qed
  with cb show ?thesis by (simp add: trigger'_def)
qed

lemma callback_frame:
  assumes "observerCallback d ms s = Some s1"
  shows "observer' s1 = observer' s \<and> focusClassName' s1 = focusClassName' s"
proof (cases "firstFocused d (focusClassName' s) ms")
  case None
  with assms show ?thesis by (auto simp: observerCallback_def hideCursor'_def)
next
  case (Some t)
  show ?thesis
  proof (cases "freezed' s")
    case True
    with assms Some show ?thesis by (auto simp: observerCallback_def trigger'_def)
  next
    case False
    with assms Some obtain s2 where "focus d (s\<lparr>focused' := Some t\<rparr>) = Some s2"
      and "s1 = trigger' FOCUS_UPDATED \<lparr>e_type = FOCUS_UPDATED, detail_target = t\<rparr> s2"
      by (auto simp: observerCallback_def split: option.splits)
    with focus_frame [of d "s\<lparr>focused' := Some t\<rparr>" s2] show ?thesis
      by (simp add: trigger'_def)
  qed
qed

lemma callback_total:
  assumes "finiteChains d"
  shows "\<exists>s1. observerCallback d ms s = Some s1"
proof (cases "firstFocused d (focusClassName' s) ms")
  case None
  then show ?thesis by (simp add: observerCallback_def)
next
  case (Some t)
  with callback_marked [OF assms Some] show ?thesis by auto
qed

lemma callback_visible:
  assumes "observerCallback d ms s = Some s1" and "display (cursor' s1) \<noteq> ''none''"
  shows "\<exists>t. focused' s1 = Some t \<and> focusClassName' s \<in> set (classList d t) \<and>
           t \<in> target ` set ms"
proof (cases "firstFocused d (focusClassName' s) ms")
  case None
  with assms show ?thesis by (auto simp: observerCallback_def hideCursor'_def)
next
  case (Some t)
  have "focused' s1 = Some t"
  proof (cases "freezed' s")
    case True
    with assms(1) Some show ?thesis by (auto simp: observerCallback_def trigger'_def)
  next
    case False
    with assms(1) Some obtain s2 where "focus d (s\<lparr>focused' := Some t\<rparr>) = Some s2"
      and "s1 = trigger' FOCUS_UPDATED \<lparr>e_type = FOCUS_UPDATED, detail_target = t\<rparr> s2"
      by (auto simp: observerCallback_def split: option.splits)
    with focus_frame [of d "s\<lparr>focused' := Some t\<rparr>" s2] show ?thesis
      by (simp add: trigger'_def)
  qed
  with firstFocused_Some [OF Some] show ?thesis by simp
qed

lemma focus_on_attached:
  assumes "focused' s = Some t" and "isInDocumentBody d (Some t) = Some True"
    and "focusClassName' s \<in> set (classList d t)"
  shows "\<exists>s1. focus d s = Some s1 \<and> scrolls s1 = scrolls s @ [centred d t] \<and>
           overlayOn d t (cursor' s1) \<and> display (cursor' s1) = ''''"
  using assms
  by (simp add: focus_def place_def move_def private_defs overlayOn_def centred_def Let_def)

lemma focus_scrolls_once:
  assumes "focus d s = Some s1"
  shows "length (scrolls s1) \<le> Suc (length (scrolls s))"
  using assms
  by (auto simp: focus_def place_def move_def private_defs Let_def
      split: option.splits if_splits)

lemma focus_parent:
  assumes "focus d s = Some s1"
  shows "c_parentNode (cursor' s1) = c_parentNode (cursor' s)"
  using assms
  by (auto simp: focus_def place_def move_def private_defs Let_def
      split: option.splits if_splits)

lemma run_append:
  "run s (xs @ ys) = (case run s xs of None \<Rightarrow> None | Some s1 \<Rightarrow> run s1 ys)"
  by (induction xs arbitrary: s) (auto split: option.splits)

lemma run_total:
  assumes "\<forall>(d, ms) \<in> set evs. finiteChains d"
  shows "\<exists>s1. run s evs = Some s1 \<and> observer' s1 = observer' s \<and>
           focusClassName' s1 = focusClassName' s"
  using assms
proof (induction evs arbitrary: s)
  case Nil
  then show ?case by simp
next
  case (Cons ev evs)
  obtain d ms where ev: "ev = (d, ms)" by (cases ev)
  with Cons.prems have fin: "finiteChains d" by simp
  have "\<exists>s1. deliver d ms s = Some s1 \<and> observer' s1 = observer' s \<and>
          focusClassName' s1 = focusClassName' s"
  proof (cases "observer' s = Some (Observer True)")
    case True
    from callback_total [OF fin] obtain s1 where "observerCallback d ms s = Some s1" ..
    with True callback_frame [of d ms s s1] show ?thesis by (simp add: deliver_def)
  next
    case False
    then show ?thesis
      by (auto simp: deliver_def split: option.splits mutationObserver.splits bool.splits)
  qed
  then obtain s1 where s1: "deliver d ms s = Some s1" "observer' s1 = observer' s"
    "focusClassName' s1 = focusClassName' s" by blast
  from Cons.prems have "\<forall>(d, ms) \<in> set evs. finiteChains d" by simp
  from Cons.IH [OF this, of s1] s1 ev show ?case by auto
qed

lemma start_connects:
  assumes "finiteChains d"
  shows "\<exists>s1. start d s = Some s1 \<and> observer' s1 = Some (Observer True) \<and>
           focusClassName' s1 = focusClassName' s \<and> root' s1 = root' s"
proof -
  let ?u = "observeFocus' (appendToRoot' (styleCursor' s))"
  from focus_total [OF assms] obtain s1 where s1: "focus d ?u = Some s1" ..
  from focus_frame [OF s1] s1 show ?thesis
    by (simp add: start_def observeFocus'_def appendToRoot'_def styleCursor'_def hideCursor'_def)
qed

lemma unfreeze_idle:
  assumes "\<not> freezed' s"
  shows "s\<lparr>freezed' := False\<rparr> = s"
  using assms by (cases s) simp

lemmas run_defs =
  session_def deliver_def observerCallback_def trigger'_def FOCUS_UPDATED_def resume_def

lemma querySelector_Some:
  assumes "querySelector d cls = Some q"
  shows "q \<in> set (elements d) \<and> cls \<in> set (classList d q)"
  using assms by (auto simp: querySelector_def find_Some_iff)

lemma querySelector_None_iff:
  "querySelector d cls = None \<longleftrightarrow> \<not> (\<exists>e \<in> set (elements d). cls \<in> set (classList d e))"
  by (auto simp: querySelector_def find_None_iff)

lemma focus_result:
  assumes "isInDocumentBody d (focused' s) = Some b"
    and "(if b then focused' s else querySelector d (focusClassName' s)) = r"
  shows "\<exists>s1. focus d s = Some s1 \<and>
           (display (cursor' s1) \<noteq> ''none'' \<longleftrightarrow>
              (\<exists>el. r = Some el \<and> focusClassName' s \<in> set (classList d el))) \<and>
           (\<forall>el. r = Some el \<and> focusClassName' s \<in> set (classList d el) \<longrightarrow>
              overlayOn d el (cursor' s1))"
  using assms
  by (cases b)
     (auto simp: focus_def place_def move_def private_defs overlayOn_def Let_def
        split: option.splits)

lemma callback_freezed:
  assumes "observerCallback d ms s = Some s1"
  shows "freezed' s1 = freezed' s"
proof (cases "firstFocused d (focusClassName' s) ms")
  case None
  with assms show ?thesis by (auto simp: observerCallback_def hideCursor'_def)
next
  case (Some t)
  show ?thesis
  proof (cases "freezed' s")
    case True
    with assms Some show ?thesis by (auto simp: observerCallback_def trigger'_def)
  next
    case False
    with assms Some obtain s2 where "focus d (s\<lparr>focused' := Some t\<rparr>) = Some s2"
      and "s1 = trigger' FOCUS_UPDATED \<lparr>e_type = FOCUS_UPDATED, detail_target = t\<rparr> s2"
      by (auto simp: observerCallback_def split: option.splits)
    with focus_frame [of d "s\<lparr>focused' := Some t\<rparr>" s2] show ?thesis
      by (simp add: trigger'_def)
  qed
qed

lemma run_freezed:
  assumes "run s evs = Some s1"
  shows "freezed' s1 = freezed' s"
  using assms
proof (induction evs arbitrary: s)
  case Nil
  then show ?case by simp
next
  case (Cons ev evs)
  obtain d ms where ev: "ev = (d, ms)" by (cases ev)
  with Cons.prems obtain s2 where d: "deliver d ms s = Some s2" and r: "run s2 evs = Some s1"
    by (auto split: option.splits)
  have "freezed' s2 = freezed' s"
  proof (cases "observer' s = Some (Observer True)")
    case True
    with d callback_freezed [of d ms s s2] show ?thesis by (simp add: deliver_def)
  next
    case False
    with d show ?thesis
      by (auto simp: deliver_def split: option.splits mutationObserver.splits bool.splits)
  qed
  with Cons.IH [OF r] show ?case by simp
qed

lemma start_freezed:
  assumes "start d s = Some s1"
  shows "freezed' s1 = freezed' s"
  using focus_frame [of d "observeFocus' (appendToRoot' (styleCursor' s))" s1] assms
  by (simp add: start_def observeFocus'_def appendToRoot'_def styleCursor'_def hideCursor'_def)

lemma callback_unfrozen_visible:
  assumes "finiteChains d" and "\<not> freezed' s"
  shows "\<exists>s1. observerCallback d ms s = Some s1 \<and>
           (display (cursor' s1) \<noteq> ''none'' \<longleftrightarrow>
              (\<exists>m \<in> set ms. focusClassName' s \<in> set (classList d (target m))) \<and>
              (isInDocumentBody d (focused' s1) = Some True \<or>
               (\<exists>e \<in> set (elements d). focusClassName' s \<in> set (classList d e)))) \<and>
           (display (cursor' s1) \<noteq> ''none'' \<longrightarrow>
              (\<exists>el. focusClassName' s \<in> set (classList d el) \<and>
                 (isInDocumentBody d (Some el) = Some True \<or> el \<in> set (elements d)) \<and>
                 overlayOn d el (cursor' s1)))"
proof (cases "firstFocused d (focusClassName' s) ms")
  case None
  then have "observerCallback d ms s = Some (hideCursor' s)"
    by (simp add: observerCallback_def)
  moreover have "display (cursor' (hideCursor' s)) = ''none''"
    by (simp add: hideCursor'_def)
  moreover have "\<not> (\<exists>m \<in> set ms. focusClassName' s \<in> set (classList d (target m)))"
    using None by (simp add: firstFocused_None_iff)
  ultimately show ?thesis by simp
next
  case (Some t)
  let ?cls = "focusClassName' s"
  let ?u = "s\<lparr>focused' := Some t\<rparr>"
  from firstFocused_Some [OF Some] have marked: "?cls \<in> set (classList d t)"
    and inms: "t \<in> target ` set ms" by simp_all
  then have some: "\<exists>m \<in> set ms. ?cls \<in> set (classList d (target m))" by auto
  from isInDocumentBody_total [OF assms(1)] obtain b where
    b: "isInDocumentBody d (Some t) = Some b" ..
  define r where "r = (if b then Some t else querySelector d ?cls)"
  have pre1: "isInDocumentBody d (focused' ?u) = Some b"
    using b by simp
  have pre2: "(if b then focused' ?u else querySelector d (focusClassName' ?u)) = r"
    by (simp add: r_def)
  from focus_result [OF pre1 pre2] have
    "\<exists>s2. focus d ?u = Some s2 \<and>
       (display (cursor' s2) \<noteq> ''none'' \<longleftrightarrow>
          (\<exists>el. r = Some el \<and> ?cls \<in> set (classList d el))) \<and>
       (\<forall>el. r = Some el \<and> ?cls \<in> set (classList d el) \<longrightarrow>
          overlayOn d el (cursor' s2))"
    by simp
  then obtain s2 where
    f: "focus d ?u = Some s2"
    and vis: "display (cursor' s2) \<noteq> ''none'' \<longleftrightarrow>
        (\<exists>el. r = Some el \<and> ?cls \<in> set (classList d el))"
    and on: "\<And>el. r = Some el \<Longrightarrow> ?cls \<in> set (classList d el) \<Longrightarrow> overlayOn d el (cursor' s2)"
    by blast
  let ?s1 = "trigger' FOCUS_UPDATED \<lparr>e_type = FOCUS_UPDATED, detail_target = t\<rparr> s2"
  have cb: "observerCallback d ms s = Some ?s1"
    using Some assms(2) f by (simp add: observerCallback_def)
  have cur: "cursor' ?s1 = cursor' s2" by (simp add: trigger'_def)
  have tr: "focused' ?s1 = Some t"
    using focus_frame [OF f] by (simp add: trigger'_def)
  have iff: "(\<exists>el. r = Some el \<and> ?cls \<in> set (classList d el)) \<longleftrightarrow>
      (b \<or> (\<exists>e \<in> set (elements d). ?cls \<in> set (classList d e)))"
  proof (cases b)
    case True
    with marked show ?thesis by (simp add: r_def)
  next
    case False
    show ?thesis
    proof (cases "querySelector d ?cls")
      case None
      with False show ?thesis using querySelector_None_iff [of d ?cls] by (simp add: r_def)
    next
      case (Some q)
      with querySelector_Some [OF Some] False show ?thesis by (auto simp: r_def)
    qed
  qed
  have live: "\<exists>el. ?cls \<in> set (classList d el) \<and>
      (isInDocumentBody d (Some el) = Some True \<or> el \<in> set (elements d)) \<and>
      overlayOn d el (cursor' s2)"
    if "display (cursor' s2) \<noteq> ''none''"
  proof -
    from that vis obtain el where el: "r = Some el" "?cls \<in> set (classList d el)" by auto
    from on [OF el] have o: "overlayOn d el (cursor' s2)" .
    have "isInDocumentBody d (Some el) = Some True \<or> el \<in> set (elements d)"
    proof (cases b)
      case True
      with el b show ?thesis by (simp add: r_def)
    next
      case False
      with el have "querySelector d ?cls = Some el" by (simp add: r_def)
      from querySelector_Some [OF this] show ?thesis by simp
    qed
    with el o show ?thesis by blast
  qed
  have "display (cursor' ?s1) \<noteq> ''none'' \<longleftrightarrow>
      (\<exists>m \<in> set ms. ?cls \<in> set (classList d (target m))) \<and>
      (isInDocumentBody d (focused' ?s1) = Some True \<or>
       (\<exists>e \<in> set (elements d). ?cls \<in> set (classList d e)))"
    using vis iff some b by (simp only: cur tr) auto
  moreover have "display (cursor' ?s1) \<noteq> ''none'' \<longrightarrow>
      (\<exists>el. ?cls \<in> set (classList d el) \<and>
         (isInDocumentBody d (Some el) = Some True \<or> el \<in> set (elements d)) \<and>
         overlayOn d el (cursor' ?s1))"
    using live by (simp only: cur) blast
  ultimately show ?thesis using cb by blast
qed

subsection \<open>Visibility after a sequence of batches\<close>

text \<open>
  C1, as amended. Start the manager and let the host deliver any sequence of batches, each
  in a well-formed document; the run returns. After the last batch (document \<open>d\<close>,
  records \<open>ms\<close>):
  \<^item> if the overlay is visible, the tracked element is the target of a record of that
    batch and carries the focus class in \<open>d\<close>;
  \<^item> if the manager is not frozen, the overlay is visible if and only if some record of
    the batch has a target that carries the class and a holder is live, that is, the
    tracked element is attached or some element of the document carries the class; a
    visible overlay then lies on an element that carries the class and is attached or in
    the document;
  \<^item> if moreover the targets of the batch are elements of the document, the overlay is
    visible if and only if some record of the batch has a target that carries the class.

  What does not hold is that an element carrying the class makes the overlay visible by
  itself: see the counterexample below.
\<close>

theorem overlay_visibility_after_batches:
  assumes "finiteChains d0" and "\<forall>(d1, ms1) \<in> set evs. finiteChains d1" and "finiteChains d"
  shows "\<exists>s1. session d0 s (evs @ [(d, ms)]) = Some s1 \<and>
           (display (cursor' s1) \<noteq> ''none'' \<longrightarrow>
              (\<exists>t. getFocusedElement s1 = Some t \<and>
                 focusClassName' s \<in> set (classList d t) \<and> t \<in> target ` set ms)) \<and>
           (\<not> freezed' s \<longrightarrow>
              (display (cursor' s1) \<noteq> ''none'' \<longleftrightarrow>
                 (\<exists>m \<in> set ms. focusClassName' s \<in> set (classList d (target m))) \<and>
                 (isInDocumentBody d (getFocusedElement s1) = Some True \<or>
                  (\<exists>e \<in> set (elements d). focusClassName' s \<in> set (classList d e)))) \<and>
              (display (cursor' s1) \<noteq> ''none'' \<longrightarrow>
                 (\<exists>el. focusClassName' s \<in> set (classList d el) \<and>
                    (isInDocumentBody d (Some el) = Some True \<or> el \<in> set (elements d)) \<and>
                    overlayOn d el (cursor' s1))) \<and>
              ((\<forall>m \<in> set ms. target m \<in> set (elements d)) \<longrightarrow>
                 (display (cursor' s1) \<noteq> ''none'' \<longleftrightarrow>
                    (\<exists>m \<in> set ms. focusClassName' s \<in> set (classList d (target m))))))"
proof -
  let ?cls = "focusClassName' s"
  from start_connects [OF assms(1)] obtain s0 where
    s0: "start d0 s = Some s0" "observer' s0 = Some (Observer True)"
      "focusClassName' s0 = ?cls" by blast
  from run_total [OF assms(2), of s0] s0 obtain s2 where
    s2: "run s0 evs = Some s2" "observer' s2 = Some (Observer True)"
      "focusClassName' s2 = ?cls" by auto
  have fz: "freezed' s2 = freezed' s"
    using run_freezed [OF s2(1)] start_freezed [OF s0(1)] by simp
  from callback_total [OF assms(3)] obtain s1 where
    s1: "observerCallback d ms s2 = Some s1" ..
  have ses: "session d0 s (evs @ [(d, ms)]) = Some s1"
    using s0 s2 s1 by (simp add: session_def run_append deliver_def)
  have a: "\<exists>t. getFocusedElement s1 = Some t \<and> ?cls \<in> set (classList d t) \<and> t \<in> target ` set ms"
    if "display (cursor' s1) \<noteq> ''none''"
    using callback_visible [OF s1 that] s2 by (simp add: getFocusedElement_def)
  have b: "(display (cursor' s1) \<noteq> ''none'' \<longleftrightarrow>
        (\<exists>m \<in> set ms. ?cls \<in> set (classList d (target m))) \<and>
        (isInDocumentBody d (getFocusedElement s1) = Some True \<or>
         (\<exists>e \<in> set (elements d). ?cls \<in> set (classList d e)))) \<and>
      (display (cursor' s1) \<noteq> ''none'' \<longrightarrow>
        (\<exists>el. ?cls \<in> set (classList d el) \<and>
           (isInDocumentBody d (Some el) = Some True \<or> el \<in> set (elements d)) \<and>
           overlayOn d el (cursor' s1)))"
    if nf: "\<not> freezed' s"
  proof -
    from nf fz have "\<not> freezed' s2" by simp
    from callback_unfrozen_visible [OF assms(3) this, of ms] s1 s2(3)
    show ?thesis by (simp add: getFocusedElement_def)
  qed
  have c: "display (cursor' s1) \<noteq> ''none'' \<longleftrightarrow>
        (\<exists>m \<in> set ms. ?cls \<in> set (classList d (target m)))"
    if nf: "\<not> freezed' s" and indoc: "\<forall>m \<in> set ms. target m \<in> set (elements d)"
  proof -
    have "\<exists>e \<in> set (elements d). ?cls \<in> set (classList d e)"
      if "\<exists>m \<in> set ms. ?cls \<in> set (classList d (target m))"
      using that indoc by blast
    with b [OF nf] show ?thesis by blast
  qed
  from ses a b c show ?thesis by blast
qed

theorem overlay_visibility_after_batches_witness:
  "finiteChains (exDoc [2]) \<and> finiteChains (exDoc []) \<and> finiteChains (exDoc [3]) \<and>
   \<not> freezed' exManager \<and>
   target \<lparr>target = 3\<rparr> \<in> set (elements (exDoc [3])) \<and>
   focusClassName' exManager \<in> set (classList (exDoc [3]) (target \<lparr>target = 3\<rparr>)) \<and>
   (\<exists>s1. session (exDoc [2]) exManager
            ([(exDoc [], [\<lparr>target = 2\<rparr>])] @ [(exDoc [3], [\<lparr>target = 3\<rparr>])]) = Some s1 \<and>
      display (cursor' s1) \<noteq> ''none'' \<and> getFocusedElement s1 = Some 3 \<and>
      (\<exists>el. focusClassName' exManager \<in> set (classList (exDoc [3]) el) \<and>
         (isInDocumentBody (exDoc [3]) (Some el) = Some True \<or> el \<in> set (elements (exDoc [3]))) \<and>
         overlayOn (exDoc [3]) el (cursor' s1)))"
proof -
  let ?evs = "[(exDoc [], [\<lparr>target = (2::nat)\<rparr>])]"
  let ?ms = "[\<lparr>target = (3::nat)\<rparr>]"
  let ?cls = "focusClassName' exManager"
  have fins: "\<forall>(d1, ms1) \<in> set ?evs. finiteChains d1"
    by (simp add: exDoc_finiteChains)
  have nf: "\<not> freezed' exManager"
    by (simp add: exManager_def constructor_def)
  have indoc: "target \<lparr>target = 3\<rparr> \<in> set (elements (exDoc [3]))"
    by (simp add: exDoc_def)
  have marked: "?cls \<in> set (classList (exDoc [3]) (target \<lparr>target = 3\<rparr>))"
    by (simp add: exDoc_def exManager_def constructor_def)
  from overlay_visibility_after_batches
    [OF exDoc_finiteChains fins exDoc_finiteChains, of "[2]" exManager "[3]" ?ms] nf
  obtain s1 where
    s1: "session (exDoc [2]) exManager (?evs @ [(exDoc [3], ?ms)]) = Some s1"
    and tr: "display (cursor' s1) \<noteq> ''none'' \<Longrightarrow>
      \<exists>t. getFocusedElement s1 = Some t \<and> ?cls \<in> set (classList (exDoc [3]) t) \<and>
        t \<in> target ` set ?ms"
    and on: "display (cursor' s1) \<noteq> ''none'' \<Longrightarrow>
      \<exists>el. ?cls \<in> set (classList (exDoc [3]) el) \<and>
        (isInDocumentBody (exDoc [3]) (Some el) = Some True \<or> el \<in> set (elements (exDoc [3]))) \<and>
        overlayOn (exDoc [3]) el (cursor' s1)"
    and iff: "(\<forall>m \<in> set ?ms. target m \<in> set (elements (exDoc [3]))) \<Longrightarrow>
      display (cursor' s1) \<noteq> ''none'' \<longleftrightarrow>
        (\<exists>m \<in> set ?ms. ?cls \<in> set (classList (exDoc [3]) (target m)))"
    by blast
  have vis: "display (cursor' s1) \<noteq> ''none''"
    using iff indoc marked by simp
  from tr [OF vis] have t3: "getFocusedElement s1 = Some 3" by auto
  from s1 vis t3 on [OF vis] have
    "\<exists>s1. session (exDoc [2]) exManager (?evs @ [(exDoc [3], ?ms)]) = Some s1 \<and>
      display (cursor' s1) \<noteq> ''none'' \<and> getFocusedElement s1 = Some 3 \<and>
      (\<exists>el. ?cls \<in> set (classList (exDoc [3]) el) \<and>
         (isInDocumentBody (exDoc [3]) (Some el) = Some True \<or> el \<in> set (elements (exDoc [3]))) \<and>
         overlayOn (exDoc [3]) el (cursor' s1))"
    by blast
  with exDoc_finiteChains [of "[2]"] exDoc_finiteChains [of "[]"] exDoc_finiteChains [of "[3]"]
    nf indoc marked
  show ?thesis by blast
qed

text \<open>
  The equivalence with "some live element carries the class" fails in two ways. Elements
  2 and 3 both carry the class when the manager starts, and the overlay is shown. The
  class is then removed from 3: the batch holds the one record of 3, no record's target
  carries the class, and the callback hides the overlay, while element 2, inside the
  observed root and attached, still carries it. And a frozen manager started on a page
  without the class stays hidden when the class is then put on element 2.
\<close>

theorem hidden_beside_marked_element_counterexample:
  "map_option (display \<circ> cursor')
     (session (exDoc [2, 3]) exManager []) = Some '''' \<and>
   map_option (display \<circ> cursor')
     (session (exDoc [2, 3]) exManager [(exDoc [2], [\<lparr>target = 3\<rparr>])]) = Some ''none'' \<and>
   map_option (display \<circ> cursor')
     (session (exDoc []) (freeze exManager) [(exDoc [2], [\<lparr>target = 2\<rparr>])]) = Some ''none'' \<and>
   focusClassName' exManager \<in> set (classList (exDoc [2]) 2) \<and>
   2 \<in> set (elements (exDoc [2])) \<and>
   nodeContains (exDoc [2]) (root' exManager) 2 \<and>
   isInDocumentBody (exDoc [2]) (Some 2) = Some True"
  by (simp add: eval_defs run_defs freeze_def)

subsection \<open>Freezing\<close>

text \<open>
  C2. Let a batch have a first marked record, with target \<open>t\<close>. The callback returns, the
  tracked element is \<open>t\<close>, and every listener of \<^verbatim>\<open>focusUpdated\<close> is invoked once with \<open>t\<close>,
  frozen or not. When frozen, the overlay and the scroll requests are untouched, and a
  later \<^verbatim>\<open>resume()\<close> in any well-formed document clears the flag, keeps \<open>t\<close> and issues at
  most one scroll request; when \<open>t\<close> is then attached and carries the class it issues
  exactly one, centred on \<open>t\<close>, and the overlay is shown on \<open>t\<close>. When not frozen, the
  callback is \<^verbatim>\<open>focus()\<close> on the state that tracks \<open>t\<close>, followed by the notification.
\<close>

theorem frozen_batch_tracks_without_repositioning:
  assumes "finiteChains d" and "firstFocused d (focusClassName' s) ms = Some t"
  shows "\<exists>s1. observerCallback d ms s = Some s1 \<and>
           getFocusedElement s1 = Some t \<and>
           invoked s1 = invoked s @
             map (\<lambda>l. (l_listener l, \<lparr>e_type = FOCUS_UPDATED, detail_target = t\<rparr>))
               (filter (\<lambda>l. l_type l = FOCUS_UPDATED) (eventListeners' s)) \<and>
           (if freezed' s
            then cursor' s1 = cursor' s \<and> scrolls s1 = scrolls s \<and> freezed' s1 \<and>
                 (\<forall>d2. finiteChains d2 \<longrightarrow>
                    (\<exists>s3. resume d2 s1 = Some s3 \<and> \<not> freezed' s3 \<and>
                       getFocusedElement s3 = Some t \<and>
                       length (scrolls s3) \<le> Suc (length (scrolls s)) \<and>
                       (isInDocumentBody d2 (Some t) = Some True \<and>
                        focusClassName' s \<in> set (classList d2 t) \<longrightarrow>
                          scrolls s3 = scrolls s @ [centred d2 t] \<and>
                          overlayOn d2 t (cursor' s3) \<and> display (cursor' s3) = '''')))
            else (\<exists>s2. focus d (s\<lparr>focused' := Some t\<rparr>) = Some s2 \<and>
                    s1 = trigger' FOCUS_UPDATED
                           \<lparr>e_type = FOCUS_UPDATED, detail_target = t\<rparr> s2))"
proof -
  let ?ev = "\<lparr>e_type = FOCUS_UPDATED, detail_target = t\<rparr>"
  from callback_tracks [OF assms] obtain s1 where
    cb: "observerCallback d ms s = Some s1" and tr: "focused' s1 = Some t"
    and inv: "invoked s1 = invoked s @
       map (\<lambda>l. (l_listener l, ?ev)) (filter (\<lambda>l. l_type l = FOCUS_UPDATED) (eventListeners' s))"
    by blast
  from callback_marked [OF assms] cb obtain s2 where
    s2: "(if freezed' s then Some (s\<lparr>focused' := Some t\<rparr>)
          else focus d (s\<lparr>focused' := Some t\<rparr>)) = Some s2"
    and s1: "s1 = trigger' FOCUS_UPDATED ?ev s2"
    by auto
  have rest: "if freezed' s
     then cursor' s1 = cursor' s \<and> scrolls s1 = scrolls s \<and> freezed' s1 \<and>
          (\<forall>d2. finiteChains d2 \<longrightarrow>
             (\<exists>s3. resume d2 s1 = Some s3 \<and> \<not> freezed' s3 \<and>
                getFocusedElement s3 = Some t \<and>
                length (scrolls s3) \<le> Suc (length (scrolls s)) \<and>
                (isInDocumentBody d2 (Some t) = Some True \<and>
                 focusClassName' s \<in> set (classList d2 t) \<longrightarrow>
                   scrolls s3 = scrolls s @ [centred d2 t] \<and>
                   overlayOn d2 t (cursor' s3) \<and> display (cursor' s3) = '''')))
     else (\<exists>s2. focus d (s\<lparr>focused' := Some t\<rparr>) = Some s2 \<and>
             s1 = trigger' FOCUS_UPDATED ?ev s2)"
  proof (cases "freezed' s")
    case False
    with s2 s1 show ?thesis by simp
  next
    case True
    with s2 s1 have same: "cursor' s1 = cursor' s" "scrolls s1 = scrolls s" "freezed' s1"
      "focusClassName' s1 = focusClassName' s"
      by (auto simp: trigger'_def)
    have "\<exists>s3. resume d2 s1 = Some s3 \<and> \<not> freezed' s3 \<and>
            getFocusedElement s3 = Some t \<and>
            length (scrolls s3) \<le> Suc (length (scrolls s)) \<and>
            (isInDocumentBody d2 (Some t) = Some True \<and>
             focusClassName' s \<in> set (classList d2 t) \<longrightarrow>
               scrolls s3 = scrolls s @ [centred d2 t] \<and>
               overlayOn d2 t (cursor' s3) \<and> display (cursor' s3) = '''')"
      if fin2: "finiteChains d2" for d2
    proof -
      let ?u = "s1\<lparr>freezed' := False\<rparr>"
      from focus_total [OF fin2] obtain s3 where s3: "focus d2 ?u = Some s3" ..
      from focus_frame [OF s3] tr have fr: "\<not> freezed' s3" "focused' s3 = Some t" by simp_all
      from focus_scrolls_once [OF s3] same have len: "length (scrolls s3) \<le> Suc (length (scrolls s))"
        by simp
      have "scrolls s3 = scrolls s @ [centred d2 t] \<and> overlayOn d2 t (cursor' s3) \<and>
            display (cursor' s3) = ''''"
        if "isInDocumentBody d2 (Some t) = Some True" "focusClassName' s \<in> set (classList d2 t)"
        using focus_on_attached [of ?u t d2] that tr same s3 by simp
      with s3 fr len show ?thesis by (auto simp: resume_def getFocusedElement_def)
    qed
    with True same show ?thesis by simp
  qed
  from cb tr inv rest show ?thesis
    by (intro exI [of _ s1] conjI) (simp_all add: getFocusedElement_def)
qed

theorem frozen_batch_tracks_without_repositioning_witness:
  "finiteChains (exDoc [3]) \<and>
   firstFocused (exDoc [3]) (focusClassName' (freeze (addEventListener FOCUS_UPDATED 11 exManager)))
     [\<lparr>target = 2\<rparr>, \<lparr>target = 3\<rparr>] = Some 3 \<and>
   freezed' (freeze (addEventListener FOCUS_UPDATED 11 exManager)) \<and>
   isInDocumentBody (exDoc [3]) (Some 3) = Some True \<and>
   ''focus'' \<in> set (classList (exDoc [3]) 3) \<and>
   (\<exists>s1. observerCallback (exDoc [3]) [\<lparr>target = 2\<rparr>, \<lparr>target = 3\<rparr>]
            (freeze (addEventListener FOCUS_UPDATED 11 exManager)) = Some s1 \<and>
      getFocusedElement s1 = Some 3 \<and>
      invoked s1 = [(11, \<lparr>e_type = FOCUS_UPDATED, detail_target = 3\<rparr>)] \<and>
      cursor' s1 = createElementDiv \<and> scrolls s1 = [] \<and>
      (\<exists>s3. resume (exDoc [3]) s1 = Some s3 \<and> \<not> freezed' s3 \<and>
         scrolls s3 = [\<lparr>s_left = 7, s_top = 40, behavior = ''smooth''\<rparr>] \<and>
         overlayOn (exDoc [3]) 3 (cursor' s3) \<and> display (cursor' s3) = ''''))"
proof -
  let ?s = "freeze (addEventListener FOCUS_UPDATED 11 exManager)"
  let ?ms = "[\<lparr>target = 2\<rparr>, \<lparr>target = (3::nat)\<rparr>]"
  have ff: "firstFocused (exDoc [3]) (focusClassName' ?s) ?ms = Some 3"
    by (simp add: eval_defs freeze_def addEventListener_def)
  have fz: "freezed' ?s" by (simp add: freeze_def)
  have att: "isInDocumentBody (exDoc [3]) (Some 3) = Some True"
    by (simp add: isInDocumentBody_Some exDoc_def)
  have cls: "focusClassName' ?s \<in> set (classList (exDoc [3]) 3)"
    by (simp add: eval_defs freeze_def addEventListener_def)
  from frozen_batch_tracks_without_repositioning [OF exDoc_finiteChains ff] fz
  obtain s1 where cb: "observerCallback (exDoc [3]) ?ms ?s = Some s1"
    and tr: "getFocusedElement s1 = Some 3"
    and inv: "invoked s1 = invoked ?s @
        map (\<lambda>l. (l_listener l, \<lparr>e_type = FOCUS_UPDATED, detail_target = 3\<rparr>))
          (filter (\<lambda>l. l_type l = FOCUS_UPDATED) (eventListeners' ?s))"
    and same: "cursor' s1 = cursor' ?s" "scrolls s1 = scrolls ?s"
    and res: "\<And>d2. finiteChains d2 \<Longrightarrow>
        \<exists>s3. resume d2 s1 = Some s3 \<and> \<not> freezed' s3 \<and> getFocusedElement s3 = Some 3 \<and>
          length (scrolls s3) \<le> Suc (length (scrolls ?s)) \<and>
          (isInDocumentBody d2 (Some 3) = Some True \<and>
           focusClassName' ?s \<in> set (classList d2 3) \<longrightarrow>
             scrolls s3 = scrolls ?s @ [centred d2 3] \<and>
             overlayOn d2 3 (cursor' s3) \<and> display (cursor' s3) = '''')"
    by auto
  from res [OF exDoc_finiteChains, of "[3]"] att cls
  obtain s3 where s3: "resume (exDoc [3]) s1 = Some s3" "\<not> freezed' s3"
    "scrolls s3 = scrolls ?s @ [centred (exDoc [3]) 3]"
    "overlayOn (exDoc [3]) 3 (cursor' s3)" "display (cursor' s3) = ''''"
    by auto
  have "scrolls ?s @ [centred (exDoc [3]) 3] = [\<lparr>s_left = 7, s_top = 40, behavior = ''smooth''\<rparr>]"
    by (simp add: eval_defs freeze_def addEventListener_def centred_def)
  with s3 have r: "\<exists>s3. resume (exDoc [3]) s1 = Some s3 \<and> \<not> freezed' s3 \<and>
         scrolls s3 = [\<lparr>s_left = 7, s_top = 40, behavior = ''smooth''\<rparr>] \<and>
         overlayOn (exDoc [3]) 3 (cursor' s3) \<and> display (cursor' s3) = ''''"
    by simp
  have i: "invoked s1 = [(11, \<lparr>e_type = FOCUS_UPDATED, detail_target = 3\<rparr>)]"
    using inv by (simp add: eval_defs freeze_def addEventListener_def)
  have c: "cursor' s1 = createElementDiv" "scrolls s1 = []"
    using same by (simp_all add: eval_defs freeze_def addEventListener_def)
  have cls2: "''focus'' \<in> set (classList (exDoc [3]) 3)"
    by (simp add: exDoc_def)
  from cb tr i c r have
    "\<exists>s1. observerCallback (exDoc [3]) ?ms ?s = Some s1 \<and>
      getFocusedElement s1 = Some 3 \<and>
      invoked s1 = [(11, \<lparr>e_type = FOCUS_UPDATED, detail_target = 3\<rparr>)] \<and>
      cursor' s1 = createElementDiv \<and> scrolls s1 = [] \<and>
      (\<exists>s3. resume (exDoc [3]) s1 = Some s3 \<and> \<not> freezed' s3 \<and>
         scrolls s3 = [\<lparr>s_left = 7, s_top = 40, behavior = ''smooth''\<rparr>] \<and>
         overlayOn (exDoc [3]) 3 (cursor' s3) \<and> display (cursor' s3) = '''')"
    by blast
  with exDoc_finiteChains [of "[3]"] ff fz att cls2 show ?thesis
    by blast
qed

subsection \<open>The effective target\<close>

text \<open>
  C4, as amended. In \<^verbatim>\<open>place()\<close> and in \<^verbatim>\<open>move()\<close> the effective target is the tracked
  element when the attachment walk says it is attached, and otherwise the result of
  \<^verbatim>\<open>document.querySelector\<close>, which searches the whole document and not only the observed
  subtree. A tracked element that is not attached is never the one measured. With no
  effective target both methods only hide the overlay. With one, \<^verbatim>\<open>place()\<close> puts the
  overlay on it, and \<^verbatim>\<open>move()\<close> does so when it carries the class and only hides the
  overlay when it does not.
\<close>

theorem effective_target_resolution:
  assumes "finiteChains d"
  shows "\<exists>inBody p m.
           isInDocumentBody d (getFocusedElement s) = Some inBody \<and>
           place d s = Some p \<and> move d s = Some m \<and>
           (case (if inBody then getFocusedElement s
                  else querySelector d (focusClassName' s)) of
              None \<Rightarrow> p = hideCursor' s \<and> m = hideCursor' s
            | Some el \<Rightarrow>
                overlayOn d el (cursor' p) \<and> scrolls p = scrolls s @ [centred d el] \<and>
                (if focusClassName' s \<in> set (classList d el)
                 then overlayOn d el (cursor' m) \<and> scrolls m = scrolls s @ [centred d el]
                 else m = hideCursor' s))"
proof -
  from isInDocumentBody_total [OF assms] obtain inBody where
    ib: "isInDocumentBody d (focused' s) = Some inBody" ..
  then show ?thesis
    by (cases inBody)
       (auto simp: place_def move_def getFocusedElement_def private_defs overlayOn_def
          centred_def Let_def split: option.splits)
qed

theorem effective_target_resolution_witness:
  "finiteChains (exDoc [2, 3]) \<and>
   isInDocumentBody (exDoc [2, 3]) (Some 3) = Some True \<and>
   isInDocumentBody (exDoc [2, 3]) (Some 5) = Some False \<and>
   querySelector (exDoc [2, 3]) ''focus'' = Some 2 \<and>
   (\<exists>p m. place (exDoc [2, 3]) (exManager\<lparr>focused' := Some 3\<rparr>) = Some p \<and>
      move (exDoc [2, 3]) (exManager\<lparr>focused' := Some 3\<rparr>) = Some m \<and>
      overlayOn (exDoc [2, 3]) 3 (cursor' p) \<and> overlayOn (exDoc [2, 3]) 3 (cursor' m)) \<and>
   (\<exists>p m. place (exDoc [2, 3]) (exManager\<lparr>focused' := Some 5\<rparr>) = Some p \<and>
      move (exDoc [2, 3]) (exManager\<lparr>focused' := Some 5\<rparr>) = Some m \<and>
      overlayOn (exDoc [2, 3]) 2 (cursor' p) \<and> overlayOn (exDoc [2, 3]) 2 (cursor' m)) \<and>
   place (exDoc []) (exManager\<lparr>focused' := Some 5\<rparr>) =
     Some (hideCursor' (exManager\<lparr>focused' := Some 5\<rparr>)) \<and>
   move (exDoc []) (exManager\<lparr>focused' := Some 5\<rparr>) =
     Some (hideCursor' (exManager\<lparr>focused' := Some 5\<rparr>))"
proof -
  have a3: "isInDocumentBody (exDoc hs) (Some 3) = Some True"
    and a5: "isInDocumentBody (exDoc hs) (Some 5) = Some False" for hs
    by (simp_all add: isInDocumentBody_Some exDoc_def)
  have q: "querySelector (exDoc [2, 3]) ''focus'' = Some 2"
    and q0: "querySelector (exDoc []) ''focus'' = None"
    by (simp_all add: querySelector_def exDoc_def)
  have cls: "focusClassName' (exManager\<lparr>focused' := Some e\<rparr>) = ''focus''"
    and fe: "getFocusedElement (exManager\<lparr>focused' := Some e\<rparr>) = Some e" for e
    by (simp_all add: exManager_def constructor_def getFocusedElement_def)
  have m2: "''focus'' \<in> set (classList (exDoc [2, 3]) 2)"
    and m3: "''focus'' \<in> set (classList (exDoc [2, 3]) 3)"
    by (simp_all add: exDoc_def)
  have one: "\<exists>p m. place (exDoc [2, 3]) (exManager\<lparr>focused' := Some 3\<rparr>) = Some p \<and>
      move (exDoc [2, 3]) (exManager\<lparr>focused' := Some 3\<rparr>) = Some m \<and>
      overlayOn (exDoc [2, 3]) 3 (cursor' p) \<and> overlayOn (exDoc [2, 3]) 3 (cursor' m)"
    using effective_target_resolution [OF exDoc_finiteChains, of "[2, 3]"
        "exManager\<lparr>focused' := Some 3\<rparr>"] a3 [of "[2, 3]"] m3
    by (auto simp: fe cls)
  have two: "\<exists>p m. place (exDoc [2, 3]) (exManager\<lparr>focused' := Some 5\<rparr>) = Some p \<and>
      move (exDoc [2, 3]) (exManager\<lparr>focused' := Some 5\<rparr>) = Some m \<and>
      overlayOn (exDoc [2, 3]) 2 (cursor' p) \<and> overlayOn (exDoc [2, 3]) 2 (cursor' m)"
    using effective_target_resolution [OF exDoc_finiteChains, of "[2, 3]"
        "exManager\<lparr>focused' := Some 5\<rparr>"] a5 [of "[2, 3]"] q m2
    by (auto simp: fe cls)
  have three: "place (exDoc []) (exManager\<lparr>focused' := Some 5\<rparr>) =
      Some (hideCursor' (exManager\<lparr>focused' := Some 5\<rparr>)) \<and>
    move (exDoc []) (exManager\<lparr>focused' := Some 5\<rparr>) =
      Some (hideCursor' (exManager\<lparr>focused' := Some 5\<rparr>))"
    using effective_target_resolution [OF exDoc_finiteChains, of "[]"
        "exManager\<lparr>focused' := Some 5\<rparr>"] a5 [of "[]"] q0
    by (auto simp: fe cls)
  from exDoc_finiteChains [of "[2, 3]"] a3 [of "[2, 3]"] a5 [of "[2, 3]"] q one two three
  show ?thesis by blast
qed

text \<open>
  The claim as it was stated, with a query of the observed subtree, fails: nothing is
  tracked, the only element with the class is 4, which lies outside the root 1, and a
  query of the subtree finds nothing; \<^verbatim>\<open>place()\<close> still finds 4, moves the overlay onto
  it and shows it.
\<close>

theorem fallback_queries_whole_document_counterexample:
  "getFocusedElement exManager = None \<and>
   querySubtree (exDoc [4]) (root' exManager) (focusClassName' exManager) = None \<and>
   querySelector (exDoc [4]) (focusClassName' exManager) = Some 4 \<and>
   \<not> nodeContains (exDoc [4]) (root' exManager) 4 \<and>
   place (exDoc [4]) exManager \<noteq> Some (hideCursor' exManager) \<and>
   map_option (display \<circ> cursor') (place (exDoc [4]) exManager) = Some '''' \<and>
   map_option (transform \<circ> cursor') (place (exDoc [4]) exManager) =
     Some (Some (Translate3d (Some 54) (Some 418))) \<and>
   transform (cursor' exManager) = None"
  by (simp add: eval_defs querySubtree_def getFocusedElement_def)

subsection \<open>The geometry of a placement\<close>

text \<open>
  A border width that is a whole number of pixels is read by \<^verbatim>\<open>parseInt\<close> as it is.
\<close>

lemma digit_facts:
  assumes "isDigit c"
  shows "\<not> isSpace c" and "c \<noteq> CHR ''-''" and "c \<noteq> CHR ''+''" and "c \<noteq> CHR ''.''"
  using assms by (auto simp: isDigit_def isSpace_def)

lemma whole_pixels:
  assumes "ds \<noteq> []" and "\<forall>c \<in> set ds. isDigit c"
  shows "parseInt (ds @ ''px'') = Some (real_of_int (digitsValue ds))"
    and "cssPixels (ds @ ''px'') = Some (real_of_int (digitsValue ds))"
proof -
  from assms obtain c cs where ds: "ds = c # cs" by (cases ds) auto
  with assms(2) have c: "isDigit c" by simp
  have tw: "takeWhile isDigit (ds @ ''px'') = ds"
    using assms(2) by (simp add: takeWhile_append2 isDigit_def)
  have dw: "dropWhile isDigit (ds @ ''px'') = ''px''"
    using assms(2) by (simp add: dropWhile_append2 isDigit_def)
  have sp: "dropWhile isSpace (ds @ ''px'') = ds @ ''px''"
    using digit_facts(1) [OF c] by (simp add: ds)
  show "parseInt (ds @ ''px'') = Some (real_of_int (digitsValue ds))"
    unfolding parseInt_def sp Let_def
    using digit_facts [OF c] tw assms(1) by (simp add: ds)
  show "cssPixels (ds @ ''px'') = Some (real_of_int (digitsValue ds))"
    unfolding cssPixels_def tw dw Let_def
    using assms(1) by (simp add: digitsValue_def)
qed

lemma placement_geometry_core:
  assumes "isInDocumentBody d (focused' s) = Some inBody"
    and "(if inBody then focused' s else querySelector d (focusClassName' s)) = Some el"
    and "getAbsoluteElementRect d el =
           \<lparr>rect_top = t, rect_left = l, rect_width = w, rect_height = h\<rparr>"
  shows "\<exists>p. place d s = Some p \<and>
           scrolls p = scrolls s @
             [\<lparr>s_left = pageXOffset d, s_top = t - innerHeight d / 2 + h / 2,
               behavior = ''smooth''\<rparr>] \<and>
           styleWidth (cursor' p) = Some (Px w) \<and>
           styleHeight (cursor' p) = Some (Px h) \<and>
           transform (cursor' p) =
             Some (Translate3d (minusNumber l (parseInt (borderLeftWidth d)))
                               (minusNumber t (parseInt (borderTopWidth d)))) \<and>
           (\<forall>bl bt. parseInt (borderLeftWidth d) = Some bl \<and>
                    parseInt (borderTopWidth d) = Some bt \<longrightarrow>
              transform (cursor' p) = Some (Translate3d (Some (l - bl)) (Some (t - bt)))) \<and>
           (focusClassName' s \<in> set (classList d el) \<longrightarrow>
              (\<exists>m. move d s = Some m \<and>
                 scrolls m = scrolls p \<and> styleWidth (cursor' m) = Some (Px w) \<and>
                 styleHeight (cursor' m) = Some (Px h) \<and>
                 transform (cursor' m) = transform (cursor' p)))"
proof (cases inBody)
  case True
  with assms show ?thesis
    by (auto simp: place_def move_def private_defs minusNumber_def Let_def
        split: option.splits)
next
  case False
  with assms show ?thesis
    by (auto simp: place_def move_def private_defs minusNumber_def Let_def
        split: option.splits)
qed

text \<open>
  C5, as amended. Let \<open>el\<close> be the effective target and \<open>t\<close>, \<open>l\<close>, \<open>w\<close>, \<open>h\<close> its absolute
  top, left, width and height. \<^verbatim>\<open>place()\<close> requests one smooth scroll to the top
  \<open>t - innerHeight / 2 + h / 2\<close> with the current horizontal offset as its left, sets the
  overlay's width and height to \<open>w\<close> and \<open>h\<close> pixels, and translates it to \<open>l\<close> and \<open>t\<close>
  less the integers that \<^verbatim>\<open>parseInt\<close> reads at the head of the overlay's computed left and
  top border widths (\<^verbatim>\<open>NaN\<close> where it reads none). When both widths are whole numbers of
  pixels this is the translation as stated, by the border widths themselves.
  \<^verbatim>\<open>move()\<close> does the same when the target carries the class.
\<close>

theorem placement_geometry:
  assumes "isInDocumentBody d (focused' s) = Some inBody"
    and "(if inBody then focused' s else querySelector d (focusClassName' s)) = Some el"
    and "getAbsoluteElementRect d el =
           \<lparr>rect_top = t, rect_left = l, rect_width = w, rect_height = h\<rparr>"
  shows "\<exists>p. place d s = Some p \<and>
           scrolls p = scrolls s @
             [\<lparr>s_left = pageXOffset d, s_top = t - innerHeight d / 2 + h / 2,
               behavior = ''smooth''\<rparr>] \<and>
           styleWidth (cursor' p) = Some (Px w) \<and>
           styleHeight (cursor' p) = Some (Px h) \<and>
           transform (cursor' p) =
             Some (Translate3d (minusNumber l (parseInt (borderLeftWidth d)))
                               (minusNumber t (parseInt (borderTopWidth d)))) \<and>
           (\<forall>bl bt. parseInt (borderLeftWidth d) = Some bl \<and>
                    parseInt (borderTopWidth d) = Some bt \<longrightarrow>
              transform (cursor' p) = Some (Translate3d (Some (l - bl)) (Some (t - bt)))) \<and>
           (\<forall>dl dt. dl \<noteq> [] \<and> dt \<noteq> [] \<and> (\<forall>c \<in> set (dl @ dt). isDigit c) \<and>
                    borderLeftWidth d = dl @ ''px'' \<and> borderTopWidth d = dt @ ''px'' \<longrightarrow>
              transform (cursor' p) =
                Some (statedTranslation d (getAbsoluteElementRect d el))) \<and>
           (focusClassName' s \<in> set (classList d el) \<longrightarrow>
              (\<exists>m. move d s = Some m \<and>
                 scrolls m = scrolls p \<and> styleWidth (cursor' m) = Some (Px w) \<and>
                 styleHeight (cursor' m) = Some (Px h) \<and>
                 transform (cursor' m) = transform (cursor' p)))"
proof -
  from placement_geometry_core [OF assms] obtain p where
    p: "place d s = Some p"
      "scrolls p = scrolls s @
         [\<lparr>s_left = pageXOffset d, s_top = t - innerHeight d / 2 + h / 2,
           behavior = ''smooth''\<rparr>]"
      "styleWidth (cursor' p) = Some (Px w)" "styleHeight (cursor' p) = Some (Px h)"
    and tr: "transform (cursor' p) =
         Some (Translate3d (minusNumber l (parseInt (borderLeftWidth d)))
                           (minusNumber t (parseInt (borderTopWidth d))))"
    and num: "\<forall>bl bt. parseInt (borderLeftWidth d) = Some bl \<and>
                    parseInt (borderTopWidth d) = Some bt \<longrightarrow>
              transform (cursor' p) = Some (Translate3d (Some (l - bl)) (Some (t - bt)))"
    and mv: "focusClassName' s \<in> set (classList d el) \<longrightarrow>
              (\<exists>m. move d s = Some m \<and>
                 scrolls m = scrolls p \<and> styleWidth (cursor' m) = Some (Px w) \<and>
                 styleHeight (cursor' m) = Some (Px h) \<and>
                 transform (cursor' m) = transform (cursor' p))"
    by blast
  have whole: "transform (cursor' p) = Some (statedTranslation d (getAbsoluteElementRect d el))"
    if "dl \<noteq> []" "dt \<noteq> []" "\<forall>c \<in> set (dl @ dt). isDigit c"
      "borderLeftWidth d = dl @ ''px''" "borderTopWidth d = dt @ ''px''" for dl dt
  proof -
    from that have "\<forall>c \<in> set dl. isDigit c" "\<forall>c \<in> set dt. isDigit c" by auto
    with whole_pixels [of dl] whole_pixels [of dt] that
    have "cssPixels (borderLeftWidth d) = parseInt (borderLeftWidth d)"
      "cssPixels (borderTopWidth d) = parseInt (borderTopWidth d)"
      by simp_all
    with tr assms(3) show ?thesis by (simp add: statedTranslation_def)
  qed
  from p tr num mv whole show ?thesis by blast
qed

theorem placement_geometry_witness:
  "isInDocumentBody (exDoc [2]) (focused' exManager) = Some False \<and>
   (if False then focused' exManager
    else querySelector (exDoc [2]) (focusClassName' exManager)) = Some 2 \<and>
   getAbsoluteElementRect (exDoc [2]) 2 =
     \<lparr>rect_top = 220, rect_left = 57, rect_width = 80, rect_height = 40\<rparr> \<and>
   parseInt (borderLeftWidth (exDoc [2])) = Some 3 \<and>
   parseInt (borderTopWidth (exDoc [2])) = Some 2 \<and>
   (\<exists>p. place (exDoc [2]) exManager = Some p \<and>
      scrolls p = [\<lparr>s_left = 7, s_top = - 60, behavior = ''smooth''\<rparr>] \<and>
      styleWidth (cursor' p) = Some (Px 80) \<and> styleHeight (cursor' p) = Some (Px 40) \<and>
      transform (cursor' p) = Some (Translate3d (Some 54) (Some 218)))"
proof -
  have a: "isInDocumentBody (exDoc [2]) (focused' exManager) = Some False"
    by (simp add: eval_defs)
  have b: "(if False then focused' exManager
            else querySelector (exDoc [2]) (focusClassName' exManager)) = Some 2"
    by (simp add: eval_defs)
  have c: "getAbsoluteElementRect (exDoc [2]) 2 =
      \<lparr>rect_top = 220, rect_left = 57, rect_width = 80, rect_height = 40\<rparr>"
    by (simp add: eval_defs)
  have bw: "parseInt (borderLeftWidth (exDoc [2])) = Some 3"
    "parseInt (borderTopWidth (exDoc [2])) = Some 2"
    by (simp_all add: eval_defs)
  from placement_geometry [OF a b c] bw obtain p where
    "place (exDoc [2]) exManager = Some p"
    "scrolls p = scrolls exManager @
       [\<lparr>s_left = pageXOffset (exDoc [2]), s_top = 220 - innerHeight (exDoc [2]) / 2 + 40 / 2,
         behavior = ''smooth''\<rparr>]"
    "styleWidth (cursor' p) = Some (Px 80)" "styleHeight (cursor' p) = Some (Px 40)"
    "transform (cursor' p) = Some (Translate3d (Some (57 - 3)) (Some (220 - 2)))"
    by auto
  then have "\<exists>p. place (exDoc [2]) exManager = Some p \<and>
      scrolls p = [\<lparr>s_left = 7, s_top = - 60, behavior = ''smooth''\<rparr>] \<and>
      styleWidth (cursor' p) = Some (Px 80) \<and> styleHeight (cursor' p) = Some (Px 40) \<and>
      transform (cursor' p) = Some (Translate3d (Some 54) (Some 218))"
    by (simp add: exDoc_def exManager_def constructor_def)
  with a b c bw show ?thesis by simp
qed

text \<open>
  With computed border widths of \<^verbatim>\<open>1.5px\<close> on the left and \<^verbatim>\<open>0.5px\<close> on top, and the
  target at left 57 and top 220, the stated translation is to 55.5 and 219.5; the code
  subtracts 1 and 0 and translates to 56 and 220.
\<close>

theorem truncated_border_counterexample:
  "borderLeftWidth exFineBorders = ''1.5px'' \<and> borderTopWidth exFineBorders = ''0.5px'' \<and>
   querySelector exFineBorders (focusClassName' exManager) = Some 2 \<and>
   getAbsoluteElementRect exFineBorders 2 =
     \<lparr>rect_top = 220, rect_left = 57, rect_width = 80, rect_height = 40\<rparr> \<and>
   statedTranslation exFineBorders (getAbsoluteElementRect exFineBorders 2) =
     Translate3d (Some (111 / 2)) (Some (439 / 2)) \<and>
   map_option (transform \<circ> cursor') (place exFineBorders exManager) =
     Some (Some (Translate3d (Some 56) (Some 220))) \<and>
   map_option (transform \<circ> cursor') (place exFineBorders exManager) \<noteq>
     Some (Some (statedTranslation exFineBorders (getAbsoluteElementRect exFineBorders 2)))"
  by (simp add: eval_defs exFineBorders_def statedTranslation_def cssPixels_def)

subsection \<open>Which record a batch selects\<close>

text \<open>
  C6. The callback returns on every well-formed document. If the batch splits into
  records whose targets do not carry the class, then a record whose target does, then
  the rest, that record's target becomes the tracked element and is the detail of the
  notification: the order is the batch's, not the document's. If no record's target
  carries the class, the overlay is hidden.
\<close>

theorem batch_selects_first_marked_record:
  assumes "finiteChains d"
  shows "\<exists>s1. observerCallback d ms s = Some s1 \<and>
           (\<forall>pre m post.
              ms = pre @ m # post \<and>
              (\<forall>x \<in> set pre. focusClassName' s \<notin> set (classList d (target x))) \<and>
              focusClassName' s \<in> set (classList d (target m)) \<longrightarrow>
              getFocusedElement s1 = Some (target m) \<and>
              invoked s1 = invoked s @
                map (\<lambda>l. (l_listener l, \<lparr>e_type = FOCUS_UPDATED, detail_target = target m\<rparr>))
                  (filter (\<lambda>l. l_type l = FOCUS_UPDATED) (eventListeners' s))) \<and>
           ((\<forall>x \<in> set ms. focusClassName' s \<notin> set (classList d (target x))) \<longrightarrow>
              display (cursor' s1) = ''none'')"
proof (cases "firstFocused d (focusClassName' s) ms")
  case None
  then have none: "\<forall>x \<in> set ms. focusClassName' s \<notin> set (classList d (target x))"
    by (simp add: firstFocused_None_iff)
  have "observerCallback d ms s = Some (hideCursor' s)"
    using None by (simp add: observerCallback_def)
  moreover have "display (cursor' (hideCursor' s)) = ''none''"
    by (simp add: hideCursor'_def)
  ultimately show ?thesis using none by auto
next
  case (Some t)
  from callback_tracks [OF assms Some] obtain s1 where
    s1: "observerCallback d ms s = Some s1" "focused' s1 = Some t"
      "invoked s1 = invoked s @
         map (\<lambda>l. (l_listener l, \<lparr>e_type = FOCUS_UPDATED, detail_target = t\<rparr>))
           (filter (\<lambda>l. l_type l = FOCUS_UPDATED) (eventListeners' s))"
    by blast
  have first: "target m = t"
    if "ms = pre @ m # post"
      and "\<forall>x \<in> set pre. focusClassName' s \<notin> set (classList d (target x))"
      and "focusClassName' s \<in> set (classList d (target m))" for pre m post
    using firstFocused_split [OF that] Some by simp
  have some: "\<not> (\<forall>x \<in> set ms. focusClassName' s \<notin> set (classList d (target x)))"
    using Some by (simp add: firstFocused_None_iff [symmetric])
  show ?thesis
    using s1 first some by (auto simp: getFocusedElement_def)
qed

theorem batch_selects_first_marked_record_witness:
  "finiteChains (exDoc [2, 3]) \<and>
   [\<lparr>target = 4\<rparr>, \<lparr>target = 3\<rparr>, \<lparr>target = 2\<rparr>] = [\<lparr>target = 4\<rparr>] @ \<lparr>target = 3\<rparr> # [\<lparr>target = 2\<rparr>] \<and>
   ''focus'' \<notin> set (classList (exDoc [2, 3]) 4) \<and>
   ''focus'' \<in> set (classList (exDoc [2, 3]) 3) \<and>
   querySelector (exDoc [2, 3]) ''focus'' = Some 2 \<and>
   (\<exists>s1. observerCallback (exDoc [2, 3]) [\<lparr>target = 4\<rparr>, \<lparr>target = 3\<rparr>, \<lparr>target = 2\<rparr>]
            (addEventListener FOCUS_UPDATED 11 exManager) = Some s1 \<and>
      getFocusedElement s1 = Some 3 \<and>
      invoked s1 = [(11, \<lparr>e_type = FOCUS_UPDATED, detail_target = 3\<rparr>)])"
proof -
  let ?s = "addEventListener FOCUS_UPDATED 11 exManager"
  let ?ms = "[\<lparr>target = 4\<rparr>, \<lparr>target = 3\<rparr>, \<lparr>target = (2::nat)\<rparr>]"
  from batch_selects_first_marked_record [OF exDoc_finiteChains, of "[2, 3]" ?ms ?s]
  obtain s1 where cb: "observerCallback (exDoc [2, 3]) ?ms ?s = Some s1"
    and sel: "\<And>pre m post. ?ms = pre @ m # post \<Longrightarrow>
        (\<forall>x \<in> set pre. focusClassName' ?s \<notin> set (classList (exDoc [2, 3]) (target x))) \<Longrightarrow>
        focusClassName' ?s \<in> set (classList (exDoc [2, 3]) (target m)) \<Longrightarrow>
        getFocusedElement s1 = Some (target m) \<and>
        invoked s1 = invoked ?s @
          map (\<lambda>l. (l_listener l, \<lparr>e_type = FOCUS_UPDATED, detail_target = target m\<rparr>))
            (filter (\<lambda>l. l_type l = FOCUS_UPDATED) (eventListeners' ?s))"
    by blast
  have "getFocusedElement s1 = Some 3 \<and>
        invoked s1 = [(11, \<lparr>e_type = FOCUS_UPDATED, detail_target = 3\<rparr>)]"
    using sel [of "[\<lparr>target = 4\<rparr>]" "\<lparr>target = 3\<rparr>" "[\<lparr>target = 2\<rparr>]"]
    by (simp add: eval_defs addEventListener_def)
  with cb show ?thesis
    using exDoc_finiteChains [of "[2, 3]"] by (simp add: exDoc_def querySelector_def)
qed

subsection \<open>\<^verbatim>\<open>resume()\<close> when not frozen\<close>

text \<open>
  C8, as amended. When the manager is not frozen, \<^verbatim>\<open>resume()\<close> is \<^verbatim>\<open>focus()\<close>: it returns
  on every well-formed document and leaves the frozen flag false and the tracked element
  as it was, but it resolves the target again and may change the overlay's visibility and
  geometry and request a scroll.
\<close>

theorem resume_refocuses_when_not_frozen:
  assumes "\<not> freezed' s" and "finiteChains d"
  shows "resume d s = focus d s \<and>
         (\<exists>s1. resume d s = Some s1 \<and> \<not> freezed' s1 \<and>
            getFocusedElement s1 = getFocusedElement s)"
proof -
  have eq: "resume d s = focus d s"
    using unfreeze_idle [OF assms(1)] by (simp add: resume_def)
  from focus_total [OF assms(2)] obtain s1 where s1: "focus d s = Some s1" ..
  from focus_frame [OF s1] assms(1) eq s1 show ?thesis
    by (simp add: getFocusedElement_def)
qed

theorem resume_refocuses_when_not_frozen_witness:
  "\<not> freezed' (exManager\<lparr>focused' := Some 2\<rparr>) \<and> finiteChains (exDoc [2]) \<and>
   resume (exDoc [2]) (exManager\<lparr>focused' := Some 2\<rparr>) =
     focus (exDoc [2]) (exManager\<lparr>focused' := Some 2\<rparr>) \<and>
   (\<exists>s1. resume (exDoc [2]) (exManager\<lparr>focused' := Some 2\<rparr>) = Some s1 \<and>
      \<not> freezed' s1 \<and> getFocusedElement s1 = Some 2)"
proof -
  have nf: "\<not> freezed' (exManager\<lparr>focused' := Some 2\<rparr>)"
    by (simp add: exManager_def constructor_def)
  have fe: "getFocusedElement (exManager\<lparr>focused' := Some 2\<rparr>) = Some 2"
    by (simp add: getFocusedElement_def)
  note r = resume_refocuses_when_not_frozen [OF nf exDoc_finiteChains, of "[2]"]
  from r have eq: "resume (exDoc [2]) (exManager\<lparr>focused' := Some 2\<rparr>) =
      focus (exDoc [2]) (exManager\<lparr>focused' := Some 2\<rparr>)"
    by (rule conjunct1)
  from r have "\<exists>s1. resume (exDoc [2]) (exManager\<lparr>focused' := Some 2\<rparr>) = Some s1 \<and>
      \<not> freezed' s1 \<and>
      getFocusedElement s1 = getFocusedElement (exManager\<lparr>focused' := Some 2\<rparr>)"
    by (rule conjunct2)
  then have ex: "\<exists>s1. resume (exDoc [2]) (exManager\<lparr>focused' := Some 2\<rparr>) = Some s1 \<and>
      \<not> freezed' s1 \<and> getFocusedElement s1 = Some 2"
    by (simp only: fe)
  from nf exDoc_finiteChains [of "[2]"] eq ex show ?thesis by blast
qed

text \<open>
  It is not a no-op. After the session in which the class was removed from element 3
  the manager is not frozen and the overlay is hidden, with one scroll requested so far;
  \<^verbatim>\<open>resume()\<close> then shows the overlay on element 2 and requests a second scroll.
\<close>

theorem resume_not_frozen_counterexample:
  "map_option freezed'
     (session (exDoc [2, 3]) exManager [(exDoc [2], [\<lparr>target = 3\<rparr>])]) = Some False \<and>
   map_option (display \<circ> cursor')
     (session (exDoc [2, 3]) exManager [(exDoc [2], [\<lparr>target = 3\<rparr>])]) = Some ''none'' \<and>
   map_option (length \<circ> scrolls)
     (session (exDoc [2, 3]) exManager [(exDoc [2], [\<lparr>target = 3\<rparr>])]) = Some 1 \<and>
   map_option (display \<circ> cursor')
     (Option.bind (session (exDoc [2, 3]) exManager [(exDoc [2], [\<lparr>target = 3\<rparr>])])
        (resume (exDoc [2]))) = Some '''' \<and>
   map_option (length \<circ> scrolls)
     (Option.bind (session (exDoc [2, 3]) exManager [(exDoc [2], [\<lparr>target = 3\<rparr>])])
        (resume (exDoc [2]))) = Some 2"
  by (simp add: eval_defs run_defs)

subsection \<open>Stopping twice\<close>

text \<open>
  C9. After \<^verbatim>\<open>start()\<close> on a manager that was not observing, the first \<^verbatim>\<open>stop()\<close>
  succeeds and from then on no batch reaches the manager: a delivery leaves it as it is,
  with no handler invoked. The second
  \<^verbatim>\<open>stop()\<close> does not complete: \<^verbatim>\<open>removeChild\<close> throws \<^verbatim>\<open>NotFoundError\<close>, the overlay
  being no longer a child of the root.
\<close>

theorem second_stop_throws:
  assumes "finiteChains d" and "observer' s = None"
  shows "\<exists>s1 s2. start d s = Some s1 \<and> stop s1 = Inr s2 \<and>
           stop s2 = Inl NotFoundError \<and>
           (\<forall>d2 ms. deliver d2 ms s2 = Some s2)"
proof -
  let ?u = "observeFocus' (appendToRoot' (styleCursor' s))"
  from focus_total [OF assms(1)] obtain s1 where s1: "focus d ?u = Some s1" ..
  from focus_frame [OF s1] focus_parent [OF s1] have
    p: "c_parentNode (cursor' s1) = Some (root' s1)" and o: "observer' s1 = Some (Observer True)"
    by (simp_all add: observeFocus'_def appendToRoot'_def styleCursor'_def hideCursor'_def)
  let ?s2 = "disconnectFocus' (s1\<lparr>cursor' := (cursor' s1)\<lparr>c_parentNode := None\<rparr>\<rparr>)"
  have "stop s1 = Inr ?s2" using p by (simp add: stop_def removeFromRoot'_def)
  moreover have "stop ?s2 = Inl NotFoundError"
    using o by (simp add: stop_def removeFromRoot'_def disconnectFocus'_def)
  moreover have "deliver d2 ms ?s2 = Some ?s2" for d2 ms
    using o by (simp add: deliver_def disconnectFocus'_def)
  ultimately show ?thesis using s1 by (simp add: start_def)
qed

theorem second_stop_throws_witness:
  "finiteChains (exDoc [2]) \<and> observer' exManager = None \<and>
   (\<exists>s1 s2. start (exDoc [2]) exManager = Some s1 \<and> stop s1 = Inr s2 \<and>
      stop s2 = Inl NotFoundError \<and>
      deliver (exDoc [3]) [\<lparr>target = 3\<rparr>] s2 = Some s2)"
proof -
  have fresh: "observer' exManager = None"
    by (simp add: exManager_def constructor_def)
  from second_stop_throws [OF exDoc_finiteChains fresh, of "[2]"]
    exDoc_finiteChains [of "[2]"] fresh
  show ?thesis by blast
qed

end
